theory Spec2Isabelle
  imports Main "HOL-Library.Word"
begin

section \<open>Shared data model\<close>

text \<open>
  Go's \<open>error\<close> values and panics are results of the model: \<open>Error msg\<close> is a returned
  error whose \<open>Error()\<close> text is \<open>msg\<close>, \<open>Panic msg\<close> is a run-time panic.
\<close>

datatype err = Error string | Panic string

text \<open>\<open>url.Userinfo\<close>: user name, password, and whether a password is set.\<close>

record userinfo =
  username :: string
  password :: string
  passwordSet :: bool

text \<open>\<open>url.URL\<close>, with the fields the proxy reads. \<open>Host\<close> is \<open>host\<close> or \<open>host:port\<close>.\<close>

record url =
  Scheme :: string
  User :: "userinfo option"
  Host :: string
  Path :: string

text \<open>\<open>http.Header\<close>: canonical header name to its list of values.\<close>

type_synonym header = "string \<Rightarrow> string list option"

text \<open>
  \<open>http.Request\<close>. \<open>Trace\<close> is the value stored under \<open>log.TraceContextKey\<close> in the
  request's context (\<open>None\<close> when absent).
\<close>

record request =
  Method :: string
  URL :: url
  Header :: header
  Trace :: "string option"

text \<open>\<open>http.Response\<close>, with the fields \<open>Client.do\<close> fills in.\<close>

record response =
  StatusCode :: int
  resp_Status :: string
  ProtoMajor :: int
  ProtoMinor :: int
  resp_Header :: header
  resp_Body :: string
  resp_Request :: request

section \<open>The test client: status passthrough for CONNECT over an HTTPS proxy\<close>

text \<open>
  \<open>http.StatusText\<close> of Go's \<open>net/http\<close>: the reason phrase of a status code, and the
  empty string for a code that has none.
\<close>

definition statusText_table :: "(int \<times> string) list" where
  "statusText_table =
    [(100, ''Continue''), (101, ''Switching Protocols''), (102, ''Processing''),
     (103, ''Early Hints''),
     (200, ''OK''), (201, ''Created''), (202, ''Accepted''),
     (203, ''Non-Authoritative Information''), (204, ''No Content''),
     (205, ''Reset Content''), (206, ''Partial Content''), (207, ''Multi-Status''),
     (208, ''Already Reported''), (226, ''IM Used''),
     (300, ''Multiple Choices''), (301, ''Moved Permanently''), (302, ''Found''),
     (303, ''See Other''), (304, ''Not Modified''), (305, ''Use Proxy''),
     (307, ''Temporary Redirect''), (308, ''Permanent Redirect''),
     (400, ''Bad Request''), (401, ''Unauthorized''), (402, ''Payment Required''),
     (403, ''Forbidden''), (404, ''Not Found''), (405, ''Method Not Allowed''),
     (406, ''Not Acceptable''), (407, ''Proxy Authentication Required''),
     (408, ''Request Timeout''), (409, ''Conflict''), (410, ''Gone''),
     (411, ''Length Required''), (412, ''Precondition Failed''),
     (413, ''Request Entity Too Large''), (414, ''Request URI Too Long''),
     (415, ''Unsupported Media Type''), (416, ''Requested Range Not Satisfiable''),
     (417, ''Expectation Failed''), (418, ''I'm a teapot''),
     (421, ''Misdirected Request''), (422, ''Unprocessable Entity''), (423, ''Locked''),
     (424, ''Failed Dependency''), (425, ''Too Early''), (426, ''Upgrade Required''),
     (428, ''Precondition Required''), (429, ''Too Many Requests''),
     (431, ''Request Header Fields Too Large''),
     (451, ''Unavailable For Legal Reasons''),
     (500, ''Internal Server Error''), (501, ''Not Implemented''), (502, ''Bad Gateway''),
     (503, ''Service Unavailable''), (504, ''Gateway Timeout''),
     (505, ''HTTP Version Not Supported''), (506, ''Variant Also Negotiates''),
     (507, ''Insufficient Storage''), (508, ''Loop Detected''), (510, ''Not Extended''),
     (511, ''Network Authentication Required'')]"

definition StatusText :: "int \<Rightarrow> string" where
  "StatusText code = (case map_of statusText_table code of Some s \<Rightarrow> s | None \<Rightarrow> [])"

text \<open>
  The loop \<open>for i := 400; i < 600; i++\<close> of \<open>Client.do\<close>: the first \<open>i\<close> from the
  given start whose status text is the error's message, \<open>None\<close> when the loop runs out.
\<close>

function do_loop :: "string \<Rightarrow> int \<Rightarrow> int option" where
  "do_loop msg i =
     (if i < 600
      then (if msg = StatusText i then Some i else do_loop msg (i + 1))
      else None)"
  by pat_completeness auto
termination
  by (relation "measure (\<lambda>(msg, i). nat (600 - i))") auto

text \<open>
  \<open>Client.do\<close>. The round tripper \<open>rt\<close> returns Go's pair \<open>(resp, err)\<close>; \<open>err = None\<close>
  is \<open>nil\<close> and \<open>Some msg\<close> an error whose \<open>Error()\<close> is \<open>msg\<close>. The synthesized
  response has an empty header and \<open>http.NoBody\<close>.
\<close>

definition Client_do ::
  "(request \<Rightarrow> response option \<times> string option) \<Rightarrow> request \<Rightarrow> response option \<times> string option"
where
  "Client_do rt req =
     (case rt req of (resp, err) \<Rightarrow>
        (case err of
           None \<Rightarrow> (resp, err)
         | Some msg \<Rightarrow>
             if Scheme (URL req) = ''https''
             then (case do_loop msg 400 of
                     Some i \<Rightarrow>
                       (Some \<lparr>StatusCode = i, resp_Status = StatusText i,
                              ProtoMajor = 1, ProtoMinor = 1,
                              resp_Header = Map.empty, resp_Body = [],
                              resp_Request = req\<rparr>, None)
                   | None \<Rightarrow> (resp, err))
             else (resp, err)))"

section \<open>Localhost classification\<close>

text \<open>
  \<open>URL.Hostname\<close> of Go's \<open>net/url\<close>: \<open>Host\<close> without a valid port and without the
  square brackets of an IPv6 literal.
\<close>

definition validOptionalPort :: "string \<Rightarrow> bool" where
  "validOptionalPort port =
     (case port of
        [] \<Rightarrow> True
      | c # cs \<Rightarrow> c = CHR '':'' \<and> list_all (\<lambda>b. b \<in> set ''0123456789'') cs)"

text \<open>\<open>strings.LastIndexByte\<close>: the index of the last occurrence, \<open>None\<close> for Go's -1.\<close>

definition LastIndexByte :: "string \<Rightarrow> char \<Rightarrow> nat option" where
  "LastIndexByte s c =
     (if c \<in> set s then Some (length (tl (dropWhile (\<lambda>x. x \<noteq> c) (rev s)))) else None)"

definition splitHostPort :: "string \<Rightarrow> string \<times> string" where
  "splitHostPort hostPort =
     (case (case LastIndexByte hostPort CHR '':'' of
              Some colon \<Rightarrow>
                if validOptionalPort (drop colon hostPort)
                then (take colon hostPort, drop (colon + 1) hostPort)
                else (hostPort, [])
            | None \<Rightarrow> (hostPort, [])) of
        (host, port) \<Rightarrow>
          if host \<noteq> [] \<and> hd host = CHR ''['' \<and> last host = CHR '']''
          then (butlast (tl host), port)
          else (host, port))"

definition Hostname :: "url \<Rightarrow> string" where
  "Hostname u = fst (splitHostPort (Host u))"

text \<open>
  \<open>net.IP\<close> is a byte slice: 4 bytes, or 16 bytes (an IPv4 address then has the
  prefix \<open>::ffff:\<close>). \<open>IP.To4\<close> and \<open>IP.IsLoopback\<close> as in Go's \<open>net\<close>.
\<close>

type_synonym IP = "nat list"

definition IPv6loopback :: IP where
  "IPv6loopback = [0, 0, 0, 0, 0, 0, 0, 0, 0, 0, 0, 0, 0, 0, 0, 1]"

definition To4 :: "IP \<Rightarrow> IP option" where
  "To4 ip =
     (if length ip = 4 then Some ip
      else if length ip = 16 \<and> list_all (\<lambda>b. b = 0) (take 10 ip) \<and> ip ! 10 = 255 \<and> ip ! 11 = 255
      then Some (drop 12 ip)
      else None)"

definition IsLoopback :: "IP \<Rightarrow> bool" where
  "IsLoopback ip =
     (case To4 ip of
        Some ip4 \<Rightarrow> ip4 ! 0 = 127
      | None \<Rightarrow> ip = IPv6loopback)"

text \<open>
  \<open>HTTPProxy.isLocalhost\<close>. \<open>LookupHost\<close> is \<open>localhostResolver.LookupHost\<close>, returning
  the error text or the list of addresses, and \<open>ParseIP\<close> is \<open>net.ParseIP\<close> (\<open>None\<close>
  for \<open>nil\<close>); both are parameters. Only \<open>addrs[0]\<close> is read, and reading it from an
  empty list panics.
\<close>

definition isLocalhost ::
  "(string \<Rightarrow> string + string list) \<Rightarrow> (string \<Rightarrow> IP option) \<Rightarrow> request \<Rightarrow> err + bool"
where
  "isLocalhost LookupHost ParseIP req =
     (let h = Hostname (URL req) in
      if h = ''localhost'' then Inr True
      else (case LookupHost h of
              Inr addrs \<Rightarrow>
                (case addrs of
                   [] \<Rightarrow> Inl (Panic ''index out of range [0] with length 0'')
                 | a # _ \<Rightarrow>
                     (case ParseIP a of
                        Some ip \<Rightarrow> Inr (IsLoopback ip)
                      | None \<Rightarrow> Inr False))
            | Inl e \<Rightarrow> Inr False))"

text \<open>
  Parsing of IP address text as Go's \<open>net\<close> and \<open>net/netip\<close> do it. \<open>parseIPv4\<close>
  reads four decimal fields 0..255 separated by dots, none empty and none with a leading
  zero, and returns the four bytes.
\<close>

fun splitDots :: "string \<Rightarrow> string list" where
  "splitDots [] = [[]]"
| "splitDots (c # cs) =
     (if c = CHR ''.'' then [] # splitDots cs
      else (case splitDots cs of f # fs \<Rightarrow> (c # f) # fs | [] \<Rightarrow> [[c]]))"

definition digitVal :: "char \<Rightarrow> nat" where
  "digitVal c = length (takeWhile (\<lambda>d. d \<noteq> c) ''0123456789'')"

definition dtoi :: "string \<Rightarrow> nat" where
  "dtoi s = foldl (\<lambda>a c. 10 * a + digitVal c) 0 s"

definition parseOctet :: "string \<Rightarrow> nat option" where
  "parseOctet f =
     (if f = [] \<or> \<not> list_all (\<lambda>b. b \<in> set ''0123456789'') f then None
      else if 1 < length f \<and> hd f = CHR ''0'' then None
      else if 3 < length f \<or> 255 < dtoi f then None
      else Some (dtoi f))"

definition parseIPv4 :: "string \<Rightarrow> nat list option" where
  "parseIPv4 s =
     (case map parseOctet (splitDots s) of
        [Some a, Some b, Some c, Some d] \<Rightarrow> Some [a, b, c, d]
      | _ \<Rightarrow> None)"

text \<open>
  A group of an IPv6 address: one to four hexadecimal digits, in either case. \<open>xtoi\<close>
  returns the value of the group at the head of the string and the number of characters
  it takes.
\<close>

definition hexVal :: "char \<Rightarrow> nat" where
  "hexVal c =
     (if c \<in> set ''0123456789abcdef''
      then length (takeWhile (\<lambda>d. d \<noteq> c) ''0123456789abcdef'')
      else length (takeWhile (\<lambda>d. d \<noteq> c) ''0123456789ABCDEF''))"

definition xtoi :: "string \<Rightarrow> (nat \<times> nat) option" where
  "xtoi s =
     (let ds = takeWhile (\<lambda>c. c \<in> set ''0123456789abcdefABCDEF'') s
      in if ds = [] \<or> 4 < length ds then None
         else Some (foldl (\<lambda>a c. 16 * a + hexVal c) 0 ds, length ds))"

text \<open>
  The loop of \<open>parseIPv6\<close>: \<open>i\<close> bytes are written (\<open>bs\<close>), \<open>ellipsis\<close> is the byte
  position of \<open>::\<close> if it has been seen, \<open>s\<close> is the text still to read. Each round reads
  a group, or a trailing dotted quad, and the colon or \<open>::\<close> after it. The result is the
  state at the end of the loop, \<open>None\<close> when the text is refused.
\<close>

function parseIPv6_loop ::
  "nat \<Rightarrow> nat option \<Rightarrow> nat list \<Rightarrow> string \<Rightarrow> (nat \<times> nat option \<times> nat list \<times> string) option"
where
  "parseIPv6_loop i ellipsis bs s =
     (if \<not> i < 16 then Some (i, ellipsis, bs, s)
      else
        (case xtoi s of
           None \<Rightarrow> None
         | Some (n, c) \<Rightarrow>
             if c < length s \<and> s ! c = CHR ''.''
             then (if ellipsis = None \<and> i \<noteq> 12 then None
                   else if 16 < i + 4 then None
                   else (case parseIPv4 s of
                           None \<Rightarrow> None
                         | Some ip4 \<Rightarrow> Some (i + 4, ellipsis, bs @ ip4, [])))
             else if drop c s = [] then Some (i + 2, ellipsis, bs @ [n div 256, n mod 256], [])
             else if hd (drop c s) \<noteq> CHR '':'' \<or> length (drop c s) = 1 then None
             else if hd (drop (c + 1) s) = CHR '':''
             then (if ellipsis \<noteq> None then None
                   else if drop (c + 2) s = []
                   then Some (i + 2, Some (i + 2), bs @ [n div 256, n mod 256], [])
                   else parseIPv6_loop (i + 2) (Some (i + 2)) (bs @ [n div 256, n mod 256])
                          (drop (c + 2) s))
             else parseIPv6_loop (i + 2) ellipsis (bs @ [n div 256, n mod 256])
                    (drop (c + 1) s)))"
  by pat_completeness auto
termination
  by (relation "measure (\<lambda>(i, ellipsis, bs, s). 16 - i)") auto

declare parseIPv6_loop.simps [simp del]

text \<open>
  \<open>parseIPv6\<close>: a leading \<open>::\<close>, the loop, and the expansion of \<open>::\<close> to the zero bytes
  that are missing (at least one group).
\<close>

definition parseIPv6 :: "string \<Rightarrow> IP option" where
  "parseIPv6 s =
     (if take 2 s = ''::'' \<and> drop 2 s = [] then Some (replicate 16 0)
      else
        (case parseIPv6_loop 0 (if take 2 s = ''::'' then Some 0 else None) []
                (if take 2 s = ''::'' then drop 2 s else s) of
           None \<Rightarrow> None
         | Some (i, ellipsis, bs, rest) \<Rightarrow>
             if rest \<noteq> [] then None
             else if i < 16
             then (case ellipsis of
                     None \<Rightarrow> None
                   | Some e \<Rightarrow> Some (take e bs @ replicate (16 - i) 0 @ drop e bs))
             else (case ellipsis of None \<Rightarrow> Some bs | Some e \<Rightarrow> None)))"

text \<open>
  \<open>net.ParseIP\<close>: the first dot, colon or percent sign decides. Dotted text is an IPv4
  address, returned in the 16-byte form; text with a colon is an IPv6 address; a zone
  (\<open>%\<close>) is refused. \<open>ParseAddr_ok\<close> says whether \<open>netip.ParseAddr\<close> accepts the text: it
  also accepts an IPv6 address followed by \<open>%\<close> and a zone that is not empty.
\<close>

definition net_ParseIP :: "string \<Rightarrow> IP option" where
  "net_ParseIP s =
     (case dropWhile (\<lambda>c. c \<notin> set ''.:%'') s of
        [] \<Rightarrow> None
      | c # _ \<Rightarrow>
          if c = CHR ''.''
          then (case parseIPv4 s of
                  None \<Rightarrow> None
                | Some ip4 \<Rightarrow> Some ([0, 0, 0, 0, 0, 0, 0, 0, 0, 0, 255, 255] @ ip4))
          else if c = CHR '':'' then parseIPv6 s
          else None)"

definition ParseAddr_ok :: "string \<Rightarrow> bool" where
  "ParseAddr_ok s =
     (case dropWhile (\<lambda>c. c \<notin> set ''.:%'') s of
        [] \<Rightarrow> False
      | c # _ \<Rightarrow>
          if c = CHR ''.'' then parseIPv4 s \<noteq> None
          else if c = CHR '':''
          then (if CHR ''%'' \<in> set s
                then tl (dropWhile (\<lambda>d. d \<noteq> CHR ''%'') s) \<noteq> [] \<and>
                     parseIPv6 (takeWhile (\<lambda>d. d \<noteq> CHR ''%'') s) \<noteq> None
                else parseIPv6 s \<noteq> None)
          else False)"

text \<open>
  The hosts file, as its list of entries \<open>(address, host name)\<close> in file order (a line
  with several names gives several entries). As Go's \<open>lookupStaticHost\<close> does, an entry
  whose address does not parse is skipped, and names are compared in lower case and as
  absolute domain names. The addresses are returned as the file writes them (Go returns
  their canonical text, which parses to the same address).
\<close>

definition lowerASCII :: "string \<Rightarrow> string" where
  "lowerASCII s =
     map (\<lambda>c. if c \<in> set ''ABCDEFGHIJKLMNOPQRSTUVWXYZ''
              then ''abcdefghijklmnopqrstuvwxyz'' !
                     length (takeWhile (\<lambda>d. d \<noteq> c) ''ABCDEFGHIJKLMNOPQRSTUVWXYZ'')
              else c) s"

definition absDomainName :: "string \<Rightarrow> string" where
  "absDomainName s = (if CHR ''.'' \<in> set s \<and> last s \<noteq> CHR ''.'' then s @ ''.'' else s)"

definition lookupStaticHost :: "(string \<times> string) list \<Rightarrow> string \<Rightarrow> string list" where
  "lookupStaticHost hosts host =
     map fst
       (filter (\<lambda>(a, name). ParseAddr_ok a \<and>
                  absDomainName (lowerASCII name) = absDomainName (lowerASCII host)) hosts)"

text \<open>
  Modelled from the spec: \<open>nopResolver\<close>, which builds \<open>localhostResolver\<close>, is not under
  src/. Spec 4.5: the resolver never dials, it consults only the local hosts file; spec
  8: the IP literals 127.0.0.1, 127.99.0.5 and ::1 are classified localhost. The model is
  Go's \<open>net.Resolver\<close> with its \<open>Dial\<close> hook (network and address to an error text or
  a connection): \<open>LookupHost\<close> refuses the empty name, returns an IP literal as it is,
  then asks the hosts file, and only when the hosts file has no entry dials a name
  server through \<open>Dial\<close>; \<open>dns\<close> is what the network would answer over such a
  connection. \<open>nopResolver\<close> is the resolver whose \<open>Dial\<close> always fails, so no
  connection is ever made.
\<close>

record Resolver =
  Dial :: "string \<Rightarrow> string \<Rightarrow> string + nat"

definition Resolver_LookupHost ::
  "Resolver \<Rightarrow> (string \<times> string) list \<Rightarrow> (string \<Rightarrow> string list) \<Rightarrow> string \<Rightarrow>
     string + string list"
where
  "Resolver_LookupHost r hosts dns host =
     (if host = [] then Inl ''no such host''
      else if ParseAddr_ok host then Inr [host]
      else (case lookupStaticHost hosts host of
              a # addrs \<Rightarrow> Inr (a # addrs)
            | [] \<Rightarrow>
                (case Dial r ''udp'' ''nameserver:53'' of
                   Inl e \<Rightarrow> Inl e
                 | Inr c \<Rightarrow>
                     (case dns host of
                        [] \<Rightarrow> Inl ''no such host''
                      | a # addrs \<Rightarrow> Inr (a # addrs)))))"

definition nopResolver :: Resolver where
  "nopResolver =
     \<lparr>Dial = (\<lambda>network address. Inl ''no DNS resolver configured'')\<rparr>"

section \<open>The HTTP proxy: configuration and upstream selection\<close>

text \<open>
  The PAC mode enumeration of \<open>pac/mode_string.go\<close>, and an upstream candidate
  \<open>pac.Proxy\<close> with the fields \<open>Mode\<close>, \<open>Host\<close> and \<open>Port\<close>.
\<close>

datatype Mode = DIRECT | PROXY | HTTP | HTTPS | SOCKS | SOCKS4 | SOCKS5

record Proxy =
  proxy_Mode :: Mode
  proxy_Host :: string
  proxy_Port :: string

text \<open>
  \<open>ProxyFunc\<close> returns the upstream proxy URL (\<open>None\<close> is \<open>nil\<close>: DIRECT) or an error.
  A \<open>PACResolver\<close> is its method \<open>FindProxyForURL(url, hint)\<close>; a
  \<open>ruleset.RegexpMatcher\<close> is its method \<open>Match\<close>; a \<open>CredentialsMatcher\<close> is its
  method \<open>MatchURL\<close>, which is handed a URL pointer (\<open>None\<close> is \<open>nil\<close>).
\<close>

type_synonym ProxyFunc = "request \<Rightarrow> err + url option"
type_synonym PACResolver = "url \<Rightarrow> string \<Rightarrow> string + string"
type_synonym RegexpMatcher = "string \<Rightarrow> bool"
type_synonym CredentialsMatcher = "url option \<Rightarrow> userinfo option"

text \<open>
  \<open>ProxyLocalhostMode\<close> is a string type with three valid values.
\<close>

definition DenyProxyLocalhost :: string where "DenyProxyLocalhost = ''deny''"
definition AllowProxyLocalhost :: string where "AllowProxyLocalhost = ''allow''"
definition DirectProxyLocalhost :: string where "DirectProxyLocalhost = ''direct''"

definition isValid :: "string \<Rightarrow> bool" where
  "isValid m = (m = DenyProxyLocalhost \<or> m = AllowProxyLocalhost \<or> m = DirectProxyLocalhost)"

text \<open>
  Modelled from the spec: the scheme constants \<open>HTTPScheme\<close> and \<open>HTTPSScheme\<close> are
  declared outside src/; spec 3 names the transport schemes HTTP, HTTPS and H2.
\<close>

definition HTTPScheme :: string where "HTTPScheme = ''http''"
definition HTTPSScheme :: string where "HTTPSScheme = ''https''"

text \<open>
  \<open>HTTPProxyConfig\<close>, with the fields that validation and upstream selection read.
  \<open>Protocol\<close> is the scheme of the embedded \<open>HTTPServerConfig\<close>, whose other fields
  are seen only by \<open>HTTPServerConfig.Validate\<close>; the MITM configuration is an opaque
  value handed to \<open>newMartianMITMConfig\<close>.
\<close>

record HTTPProxyConfig =
  Protocol :: string
  MITM :: "string option"
  MITMDomains :: "RegexpMatcher option"
  ProxyLocalhost :: string
  UpstreamProxy :: "url option"
  UpstreamProxyFunc :: "ProxyFunc option"
  DenyDomains :: "RegexpMatcher option"
  DirectDomains :: "RegexpMatcher option"
  RequestIDHeader :: string
  ConnectPassthrough :: bool
  CloseAfterReply :: bool

text \<open>
  What the proxy calls outside src/, as parameters: the resolver's lookup and
  \<open>net.ParseIP\<close> (for \<open>isLocalhost\<close>), \<open>pac.Proxies(s).First()\<close>, \<open>Proxy.URL()\<close>
  (\<open>None\<close> is \<open>nil\<close>), \<open>HTTPServerConfig.Validate\<close>, \<open>validateProxyURL\<close> (each
  returning the error text, \<open>None\<close> for \<open>nil\<close>) and \<open>newMartianMITMConfig\<close>, which
  returns an error text or the CA certificate of the MITM configuration it built.
\<close>

record extern =
  LookupHost :: "string \<Rightarrow> string + string list"
  ParseIP :: "string \<Rightarrow> IP option"
  Proxies_First :: "string \<Rightarrow> string + Proxy"
  Proxy_URL :: "Proxy \<Rightarrow> url option"
  ServerConfig_Validate :: "HTTPProxyConfig \<Rightarrow> string option"
  validateProxyURL :: "url option \<Rightarrow> string option"
  newMartianMITMConfig :: "string \<Rightarrow> string + string"

text \<open>
  \<open>HTTPProxy\<close>, with the fields upstream selection reads and writes. The transport,
  the logger, the metrics and the settings copied to the Martian proxy are left out:
  no function below reads them.
\<close>

record HTTPProxy =
  config :: HTTPProxyConfig
  pac :: "PACResolver option"
  creds :: CredentialsMatcher
  mitmCACert :: "string option"
  proxyFunc :: "ProxyFunc option"

definition Validate :: "extern \<Rightarrow> HTTPProxyConfig \<Rightarrow> err option" where
  "Validate x c =
     (case ServerConfig_Validate x c of
        Some e \<Rightarrow> Some (Error e)
      | None \<Rightarrow>
          if Protocol c \<noteq> HTTPScheme \<and> Protocol c \<noteq> HTTPSScheme
          then Some (Error (''unsupported protocol: '' @ Protocol c))
          else if \<not> isValid (ProxyLocalhost c)
          then Some (Error (''unsupported proxy_localhost: '' @ ProxyLocalhost c))
          else (case validateProxyURL x (UpstreamProxy c) of
                  Some e \<Rightarrow> Some (Error (''upstream_proxy_uri: '' @ e))
                | None \<Rightarrow> None))"

text \<open>
  \<open>upstreamProxyURL\<close>: a copy of the configured URL; the matcher is asked only when
  the copy has no user-info. Dereferencing a \<open>nil\<close> \<open>UpstreamProxy\<close> panics.
\<close>

definition upstreamProxyURL :: "HTTPProxy \<Rightarrow> err + url" where
  "upstreamProxyURL hp =
     (case UpstreamProxy (config hp) of
        None \<Rightarrow> Inl (Panic ''nil pointer dereference'')
      | Some proxyURL \<Rightarrow>
          if User proxyURL = None
          then (case creds hp (Some proxyURL) of
                  Some u \<Rightarrow> Inr (proxyURL\<lparr>User := Some u\<rparr>)
                | None \<Rightarrow> Inr proxyURL)
          else Inr proxyURL)"

text \<open>
  \<open>pacProxy\<close>. The matcher is asked about whatever \<open>Proxy.URL()\<close> returned, also
  \<open>nil\<close>; assigning the user-info through a \<open>nil\<close> URL panics. A \<open>nil\<close> resolver
  panics at the call of its method.
\<close>

definition pacProxy :: "extern \<Rightarrow> HTTPProxy \<Rightarrow> request \<Rightarrow> err + url option" where
  "pacProxy x hp r =
     (case pac hp of
        None \<Rightarrow> Inl (Panic ''nil pointer dereference'')
      | Some FindProxyForURL \<Rightarrow>
          (case FindProxyForURL (URL r) [] of
             Inl e \<Rightarrow> Inl (Error e)
           | Inr s \<Rightarrow>
               (case Proxies_First x s of
                  Inl e \<Rightarrow> Inl (Error e)
                | Inr p \<Rightarrow>
                    (case creds hp (Proxy_URL x p) of
                       Some u \<Rightarrow>
                         (case Proxy_URL x p of
                            Some proxyURL \<Rightarrow> Inr (Some (proxyURL\<lparr>User := Some u\<rparr>))
                          | None \<Rightarrow> Inl (Panic ''nil pointer dereference''))
                     | None \<Rightarrow> Inr (Proxy_URL x p)))))"

text \<open>\<open>http.ProxyURL\<close>: the proxy function that always returns the given URL.\<close>

definition ProxyURL :: "url \<Rightarrow> ProxyFunc" where
  "ProxyURL u = (\<lambda>r. Inr (Some u))"

text \<open>
  The wrappers \<open>directDomains\<close> and \<open>directLocalhost\<close>: \<open>nil\<close> stays \<open>nil\<close>; otherwise
  a request to a direct domain, or to localhost, goes DIRECT and every other request
  is handed to the wrapped function.
\<close>

definition directDomains :: "HTTPProxy \<Rightarrow> ProxyFunc option \<Rightarrow> ProxyFunc option" where
  "directDomains hp fn =
     (case fn of
        None \<Rightarrow> None
      | Some f \<Rightarrow>
          Some (\<lambda>req.
            (case DirectDomains (config hp) of
               None \<Rightarrow> Inl (Panic ''nil pointer dereference'')
             | Some Match \<Rightarrow> if Match (Hostname (URL req)) then Inr None else f req)))"

definition directLocalhost :: "extern \<Rightarrow> ProxyFunc option \<Rightarrow> ProxyFunc option" where
  "directLocalhost x fn =
     (case fn of
        None \<Rightarrow> None
      | Some f \<Rightarrow>
          Some (\<lambda>req.
            (case isLocalhost (LookupHost x) (ParseIP x) req of
               Inl e \<Rightarrow> Inl e
             | Inr b \<Rightarrow> if b then Inr None else f req)))"

text \<open>
  \<open>configureProxy\<close>: the MITM setup, which may fail, then the \<open>switch\<close> that picks
  the upstream source, then the two wrappers. The result is the proxy with
  \<open>proxyFunc\<close> set; the middleware stack it installs last is not part of the model.
\<close>

definition configureProxy :: "extern \<Rightarrow> HTTPProxy \<Rightarrow> err + HTTPProxy" where
  "configureProxy x hp0 =
     (case (case MITM (config hp0) of
              None \<Rightarrow> Inr hp0
            | Some m \<Rightarrow>
                (case newMartianMITMConfig x m of
                   Inl e \<Rightarrow> Inl (Error (''mitm: '' @ e))
                 | Inr cert \<Rightarrow> Inr (hp0\<lparr>mitmCACert := Some cert\<rparr>))) of
        Inl e \<Rightarrow> Inl e
      | Inr hp \<Rightarrow>
          (case (case UpstreamProxyFunc (config hp) of
                   Some f \<Rightarrow> Inr (hp\<lparr>proxyFunc := Some f\<rparr>)
                 | None \<Rightarrow>
                     (case UpstreamProxy (config hp) of
                        Some _ \<Rightarrow>
                          (case upstreamProxyURL hp of
                             Inl e \<Rightarrow> Inl e
                           | Inr u \<Rightarrow> Inr (hp\<lparr>proxyFunc := Some (ProxyURL u)\<rparr>))
                      | None \<Rightarrow>
                          (case pac hp of
                             Some _ \<Rightarrow> Inr (hp\<lparr>proxyFunc := Some (pacProxy x hp)\<rparr>)
                           | None \<Rightarrow> Inr hp))) of
             Inl e \<Rightarrow> Inl e
           | Inr hp1 \<Rightarrow>
               (let hp2 = (if DirectDomains (config hp1) \<noteq> None
                           then hp1\<lparr>proxyFunc := directDomains hp1 (proxyFunc hp1)\<rparr>
                           else hp1);
                    hp3 = (if ProxyLocalhost (config hp2) = DirectProxyLocalhost
                           then hp2\<lparr>proxyFunc := directLocalhost x (proxyFunc hp2)\<rparr>
                           else hp2)
                in Inr hp3)))"

text \<open>
  \<open>newHTTPProxy\<close>: validation, the gate against a static upstream URL together with
  a PAC resolver, then the construction. \<open>nil\<close> and the error are \<open>Inl\<close>, the proxy is
  \<open>Inr\<close>. The choice of the transport only logs and is left out.
\<close>

definition newHTTPProxy ::
  "extern \<Rightarrow> HTTPProxyConfig \<Rightarrow> PACResolver option \<Rightarrow> CredentialsMatcher \<Rightarrow> err + HTTPProxy"
where
  "newHTTPProxy x cfg pr cm =
     (case Validate x cfg of
        Some e \<Rightarrow> Inl e
      | None \<Rightarrow>
          if UpstreamProxy cfg \<noteq> None \<and> pr \<noteq> None
          then Inl (Error ''cannot use both upstream proxy and PAC'')
          else configureProxy x
                 \<lparr>config = cfg, pac = pr, creds = cm, mitmCACert = None, proxyFunc = None\<rparr>)"

section \<open>Basic-auth injection\<close>

text \<open>
  \<open>Header.Get\<close> and \<open>Header.Set\<close> for a key in canonical form (\<open>Authorization\<close> is),
  and \<open>base64.StdEncoding.EncodeToString\<close> on the bytes of a string.
\<close>

definition Header_Get :: "header \<Rightarrow> string \<Rightarrow> string" where
  "Header_Get h key = (case h key of None \<Rightarrow> [] | Some [] \<Rightarrow> [] | Some (v # _) \<Rightarrow> v)"

definition Header_Set :: "header \<Rightarrow> string \<Rightarrow> string \<Rightarrow> header" where
  "Header_Set h key v = h(key \<mapsto> [v])"

definition encodeStd :: string where
  "encodeStd = ''ABCDEFGHIJKLMNOPQRSTUVWXYZabcdefghijklmnopqrstuvwxyz0123456789+/''"

fun base64_bytes :: "nat list \<Rightarrow> string" where
  "base64_bytes [] = []"
| "base64_bytes [a] =
     [encodeStd ! (a div 4), encodeStd ! ((a mod 4) * 16), CHR ''='', CHR ''='']"
| "base64_bytes [a, b] =
     [encodeStd ! (a div 4), encodeStd ! ((a mod 4) * 16 + b div 16),
      encodeStd ! ((b mod 16) * 4), CHR ''='']"
| "base64_bytes (a # b # c # rest) =
     [encodeStd ! (a div 4), encodeStd ! ((a mod 4) * 16 + b div 16),
      encodeStd ! ((b mod 16) * 4 + c div 64), encodeStd ! (c mod 64)] @ base64_bytes rest"

definition EncodeToString :: "string \<Rightarrow> string" where
  "EncodeToString s = base64_bytes (map of_char s)"

text \<open>\<open>Request.SetBasicAuth\<close> of \<open>net/http\<close>.\<close>

definition basicAuth :: "string \<Rightarrow> string \<Rightarrow> string" where
  "basicAuth usr pw = EncodeToString (usr @ '':'' @ pw)"

definition SetBasicAuth :: "request \<Rightarrow> string \<Rightarrow> string \<Rightarrow> request" where
  "SetBasicAuth req usr pw =
     req\<lparr>Header := Header_Set (Header req) ''Authorization'' (''Basic '' @ basicAuth usr pw)\<rparr>"

text \<open>
  \<open>setBasicAuth\<close>: the request as the modifier leaves it, and the returned error
  (\<open>None\<close> is \<open>nil\<close>). \<open>Userinfo.Password\<close> returns the stored password.
\<close>

definition setBasicAuth :: "CredentialsMatcher \<Rightarrow> request \<Rightarrow> request \<times> err option" where
  "setBasicAuth MatchURL req =
     (if Header_Get (Header req) ''Authorization'' = []
      then (case MatchURL (Some (URL req)) of
              Some u \<Rightarrow> (SetBasicAuth req (username u) (password u), None)
            | None \<Rightarrow> (req, None))
      else (req, None))"

section \<open>Formatting of numbers\<close>

text \<open>
  \<open>fmt\<close>'s verbs \<open>%d\<close> on an unsigned value, \<open>%v\<close> on an \<open>int\<close>, \<open>%x\<close>, and \<open>%08x\<close>
  (lower-case hexadecimal, padded with zeros on the left to eight characters).
\<close>

function fmt_d :: "nat \<Rightarrow> string" where
  "fmt_d k = (if k < 10 then [''0123456789'' ! k]
              else fmt_d (k div 10) @ [''0123456789'' ! (k mod 10)])"
  by pat_completeness auto
termination
  by (relation "measure id") auto

declare fmt_d.simps [simp del]

definition fmt_int :: "int \<Rightarrow> string" where
  "fmt_int i = (if i < 0 then CHR ''-'' # fmt_d (nat (- i)) else fmt_d (nat i))"

function fmt_x :: "nat \<Rightarrow> string" where
  "fmt_x k = (if k < 16 then [''0123456789abcdef'' ! k]
              else fmt_x (k div 16) @ [''0123456789abcdef'' ! (k mod 16)])"
  by pat_completeness auto
termination
  by (relation "measure id") auto

declare fmt_x.simps [simp del]

definition fmt_08x :: "nat \<Rightarrow> string" where
  "fmt_08x k = replicate (8 - length (fmt_x k)) CHR ''0'' @ fmt_x k"

section \<open>Sessions and contexts\<close>

text \<open>
  \<open>martian.Session\<close>. The connection, the buffered reader/writer and the response
  writer are handles (\<open>None\<close> is \<open>nil\<close>); the lock is not modelled: every method holds
  it from entry to return, so the methods of one session run one after another.
\<close>

type_synonym Conn = nat
type_synonym ReadWriter = nat
type_synonym ResponseWriter = nat

record Session =
  secure :: bool
  hijacked :: bool
  conn :: "Conn option"
  brw :: "ReadWriter option"
  rw :: "ResponseWriter option"
  vals :: "string \<Rightarrow> string option"

definition newSession :: "Conn \<Rightarrow> ReadWriter option \<Rightarrow> Session" where
  "newSession c b =
     \<lparr>secure = False, hijacked = False, conn = Some c, brw = b, rw = None,
      vals = Map.empty\<rparr>"

definition newSessionWithResponseWriter :: "ResponseWriter \<Rightarrow> Session" where
  "newSessionWithResponseWriter w =
     \<lparr>secure = False, hijacked = False, conn = None, brw = None, rw = Some w,
      vals = Map.empty\<rparr>"

definition MarkSecure :: "Session \<Rightarrow> Session" where
  "MarkSecure s = s\<lparr>secure := True\<rparr>"

definition MarkInsecure :: "Session \<Rightarrow> Session" where
  "MarkInsecure s = s\<lparr>secure := False\<rparr>"

definition Session_Set :: "string \<Rightarrow> string \<Rightarrow> Session \<Rightarrow> Session" where
  "Session_Set key val s = s\<lparr>vals := (vals s)(key \<mapsto> val)\<rparr>"

text \<open>
  \<open>Session.Hijack\<close>. \<open>rcHijack\<close> is \<open>http.NewResponseController(s.rw).Hijack()\<close>, a
  parameter. The deferred function sets \<open>hijacked\<close> to \<open>err == nil\<close> on every path
  past the first check, also when the method or the response controller panics (\<open>err\<close>
  is still \<open>nil\<close> then).
\<close>

definition Hijack ::
  "(ResponseWriter \<Rightarrow> err + Conn \<times> ReadWriter option) \<Rightarrow> Session \<Rightarrow>
     (err + Conn \<times> ReadWriter option) \<times> Session"
where
  "Hijack rcHijack s =
     (if hijacked s then (Inl (Error ''session has already been hijacked''), s)
      else (case conn s of
              Some c \<Rightarrow> (Inr (c, brw s), s\<lparr>hijacked := True\<rparr>)
            | None \<Rightarrow>
                (case rw s of
                   Some w \<Rightarrow>
                     (case rcHijack w of
                        Inr r \<Rightarrow> (Inr r, s\<lparr>hijacked := True\<rparr>)
                      | Inl (Error m) \<Rightarrow> (Inl (Error m), s\<lparr>hijacked := False\<rparr>)
                      | Inl (Panic m) \<Rightarrow> (Inl (Panic m), s\<lparr>hijacked := True\<rparr>))
                 | None \<Rightarrow>
                     (Inl (Panic ''session has no connection or response writer''),
                      s\<lparr>hijacked := True\<rparr>))))"

definition HijackResponseWriter :: "Session \<Rightarrow> (err + ResponseWriter) \<times> Session" where
  "HijackResponseWriter s =
     (if hijacked s then (Inl (Error ''session has already been hijacked''), s)
      else (case rw s of
              Some w \<Rightarrow> (Inr w, s\<lparr>hijacked := True\<rparr>)
            | None \<Rightarrow> (Inl (Error ''session has no response writer''), s)))"

text \<open>
  A call of a method of \<open>Session\<close>, and its effect: the error it returned (\<open>None\<close> when
  it returned none) and the session afterwards. \<open>IsSecure\<close>, \<open>Hijacked\<close> and \<open>Get\<close> only
  read.
\<close>

datatype call =
  Call_Hijack "ResponseWriter \<Rightarrow> err + Conn \<times> ReadWriter option"
| Call_HijackResponseWriter
| Call_IsSecure
| Call_MarkSecure
| Call_MarkInsecure
| Call_Hijacked
| Call_Get string
| Call_Set string string

fun call_step :: "call \<Rightarrow> Session \<Rightarrow> err option \<times> Session" where
  "call_step (Call_Hijack rcHijack) s =
     (case Hijack rcHijack s of (Inl e, s') \<Rightarrow> (Some e, s') | (Inr r, s') \<Rightarrow> (None, s'))"
| "call_step Call_HijackResponseWriter s =
     (case HijackResponseWriter s of (Inl e, s') \<Rightarrow> (Some e, s') | (Inr w, s') \<Rightarrow> (None, s'))"
| "call_step Call_MarkSecure s = (None, MarkSecure s)"
| "call_step Call_MarkInsecure s = (None, MarkInsecure s)"
| "call_step (Call_Set key val) s = (None, Session_Set key val s)"
| "call_step Call_IsSecure s = (None, s)"
| "call_step Call_Hijacked s = (None, s)"
| "call_step (Call_Get key) s = (None, s)"

fun run_calls :: "call list \<Rightarrow> Session \<Rightarrow> Session" where
  "run_calls [] s = s"
| "run_calls (c # cs) s = run_calls cs (snd (call_step c s))"

fun is_hijack :: "call \<Rightarrow> bool" where
  "is_hijack (Call_Hijack rcHijack) = True"
| "is_hijack Call_HijackResponseWriter = True"
| "is_hijack c = False"

text \<open>
  \<open>martian.Context\<close>: its session, the counter value \<open>n\<close> (\<open>uint64\<close>), the salt \<open>hash\<close>
  (\<open>uint32\<close>), the values and the skip-round-trip flag.
\<close>

record Context =
  ctx_session :: Session
  ctx_n :: "64 word"
  ctx_hash :: "32 word"
  ctx_vals :: "string \<Rightarrow> string option"
  skipRoundTrip :: bool

text \<open>
  \<open>withSession\<close>. The process-wide counter \<open>nextID\<close> is passed in and returned:
  \<open>nextID.Add(1)\<close> adds one, wrapping at \<open>2^64\<close>, and yields the new value. \<open>now\<close> is
  \<open>time.Now().UnixNano()\<close>, an \<open>int64\<close>; the conversion to \<open>uint32\<close> keeps its low 32
  bits.
\<close>

definition withSession :: "Session \<Rightarrow> 64 word \<Rightarrow> 64 word \<Rightarrow> Context \<times> 64 word" where
  "withSession s now nextID =
     (\<lparr>ctx_session = s, ctx_n = nextID + 1, ctx_hash = ucast now,
       ctx_vals = Map.empty, skipRoundTrip = False\<rparr>,
      nextID + 1)"

definition ID :: "Context \<Rightarrow> string" where
  "ID ctx = fmt_d (unat (ctx_n ctx)) @ ''-'' @ fmt_08x (unat (ctx_hash ctx))"

text \<open>
  The contexts of one process, in creation order: each creation names its session and
  the clock reading, and the counter starts at the given value (0 in a new process).
\<close>

fun contexts :: "64 word \<Rightarrow> (Session \<times> 64 word) list \<Rightarrow> Context list" where
  "contexts nextID [] = []"
| "contexts nextID ((s, now) # rest) =
     (case withSession s now nextID of (ctx, nextID') \<Rightarrow> ctx # contexts nextID' rest)"

section \<open>HTTP logging\<close>

text \<open>\<open>httplog.Mode\<close> is a string type; its constants.\<close>

definition httplog_None :: string where "httplog_None = ''none''"
definition httplog_ShortURL :: string where "httplog_ShortURL = ''short-url''"
definition httplog_URL :: string where "httplog_URL = ''url''"
definition httplog_Headers :: string where "httplog_Headers = ''headers''"
definition httplog_Body :: string where "httplog_Body = ''body''"
definition httplog_Errors :: string where "httplog_Errors = ''errors''"

text \<open>\<open>middleware.LogEntry\<close>; \<open>Duration\<close> in nanoseconds.\<close>

record LogEntry =
  Request :: request
  Response :: "response option"
  Status :: int
  Duration :: int

text \<open>
  What the log writer calls outside src/, as parameters: \<open>URL.Redacted\<close>,
  \<open>Duration.String\<close>, and the message view: snapshot, reader and copy of a request or
  a response give the text that reached the buffer and the error that stopped them, if
  any. Their flag is \<open>SkipBody\<close>.
\<close>

record logdeps =
  Redacted :: "url \<Rightarrow> string"
  Duration_String :: "int \<Rightarrow> string"
  copyRequest :: "bool \<Rightarrow> request \<Rightarrow> string \<times> string option"
  copyResponse :: "bool \<Rightarrow> response \<Rightarrow> string \<times> string option"

text \<open>The methods of \<open>logWriter\<close>, on the buffer \<open>b\<close>; \<open>body\<close> is its flag.\<close>

definition trace :: "LogEntry \<Rightarrow> string \<Rightarrow> string" where
  "trace e b = (case Trace (Request e) of Some t \<Rightarrow> b @ ''['' @ t @ ''] '' | None \<Rightarrow> b)"

definition URLLine :: "logdeps \<Rightarrow> LogEntry \<Rightarrow> string \<Rightarrow> string" where
  "URLLine x e b =
     trace e b @ Method (Request e) @ '' '' @ Redacted x (URL (Request e)) @
       '' status='' @ fmt_int (Status e) @ '' duration='' @ Duration_String x (Duration e) @
       [CHR 0x0A]"

definition ShortURLLine :: "logdeps \<Rightarrow> LogEntry \<Rightarrow> string \<Rightarrow> string" where
  "ShortURLLine x e b =
     (let u = URL (Request e);
          scheme = (if Scheme u \<noteq> [] then Scheme u @ ''://'' else Scheme u);
          path = (if 0 < length (Path u) \<and> Path u ! 0 \<noteq> CHR ''/'' then ''/'' @ Path u
                  else Path u)
      in trace e b @ Method (Request e) @ '' '' @ (scheme @ Host u @ path) @
           '' status='' @ fmt_int (Status e) @ '' duration='' @
           Duration_String x (Duration e) @ [CHR 0x0A])"

definition dump :: "logdeps \<Rightarrow> bool \<Rightarrow> LogEntry \<Rightarrow> string \<Rightarrow> string \<times> string option" where
  "dump x body e b =
     (case copyRequest x (\<not> body) (Request e) of
        (t, Some er) \<Rightarrow> (b @ t, Some er)
      | (t, None) \<Rightarrow>
          (case Response e of
             None \<Rightarrow> (b @ t, None)
           | Some resp \<Rightarrow>
               (case copyResponse x (\<not> body) resp of (t', er) \<Rightarrow> (b @ t @ t', er))))"

definition Dump :: "logdeps \<Rightarrow> bool \<Rightarrow> LogEntry \<Rightarrow> string \<Rightarrow> string" where
  "Dump x body e b =
     (case dump x body e b of
        (b', Some er) \<Rightarrow> b' @ [CHR 0x0A] @ ''logger error: '' @ er @ [CHR 0x0A] @ [CHR 0x0A]
      | (b', None) \<Rightarrow> b' @ [CHR 0x0A])"

text \<open>
  \<open>Logger.LogFunc\<close>: the logging function of the mode, or a panic for an unknown mode.
  The function is modelled by the list of strings it hands to \<open>l.log\<close> for an entry.
\<close>

definition LogFunc :: "logdeps \<Rightarrow> string \<Rightarrow> err + (LogEntry \<Rightarrow> string list)" where
  "LogFunc x mode =
     (if mode = [] \<or> mode = httplog_None then Inr (\<lambda>e. [])
      else if mode = httplog_ShortURL then Inr (\<lambda>e. [ShortURLLine x e []])
      else if mode = httplog_URL then Inr (\<lambda>e. [URLLine x e []])
      else if mode = httplog_Headers then Inr (\<lambda>e. [Dump x False e (ShortURLLine x e [])])
      else if mode = httplog_Body then Inr (\<lambda>e. [Dump x True e (ShortURLLine x e [])])
      else if mode = httplog_Errors
      then Inr (\<lambda>e. if Status e < 500 then [] else [Dump x False e (ShortURLLine x e [])])
      else Inl (Panic (''unknown log mode '' @ mode)))"

section \<open>Example inputs\<close>

text \<open>
  Concrete inputs on which the theorems below are instantiated: a request, the external
  functions, a configuration, a credential matcher that knows the proxy \<open>p1:8080\<close>, a
  PAC resolver, a static upstream URL, a proxy built from them and a custom upstream
  function.
\<close>

definition example_request :: request where
  "example_request =
     \<lparr>Method = ''GET'',
      URL = \<lparr>Scheme = ''http'', User = None, Host = ''example.com:80'', Path = ''/''\<rparr>,
      Header = Map.empty, Trace = None\<rparr>"

definition example_extern :: extern where
  "example_extern =
     \<lparr>LookupHost =
        Resolver_LookupHost nopResolver [(''127.0.0.1'', ''localhost'')] (\<lambda>h. []),
      ParseIP = net_ParseIP,
      Proxies_First = (\<lambda>s. if s = ''PROXY p1:8080; DIRECT''
                            then Inr \<lparr>proxy_Mode = PROXY, proxy_Host = ''p1'', proxy_Port = ''8080''\<rparr>
                            else Inl ''invalid proxy string''),
      Proxy_URL = (\<lambda>p. if proxy_Mode p = DIRECT then None
                        else Some \<lparr>Scheme = ''http'', User = None,
                                   Host = proxy_Host p @ '':'' @ proxy_Port p, Path = []\<rparr>),
      ServerConfig_Validate = (\<lambda>c. None),
      validateProxyURL = (\<lambda>u. None),
      newMartianMITMConfig = (\<lambda>m. Inr m)\<rparr>"

definition example_config :: HTTPProxyConfig where
  "example_config =
     \<lparr>Protocol = ''http'', MITM = None, MITMDomains = None, ProxyLocalhost = ''deny'',
      UpstreamProxy = None, UpstreamProxyFunc = None, DenyDomains = None,
      DirectDomains = None, RequestIDHeader = ''X-Request-Id'',
      ConnectPassthrough = False, CloseAfterReply = False\<rparr>"

definition example_creds :: CredentialsMatcher where
  "example_creds =
     (\<lambda>u. case u of
            None \<Rightarrow> None
          | Some v \<Rightarrow> if Host v = ''p1:8080''
                      then Some \<lparr>username = ''user'', password = ''pass'', passwordSet = True\<rparr>
                      else None)"

definition example_pac :: PACResolver where
  "example_pac = (\<lambda>u hint. Inr ''PROXY p1:8080; DIRECT'')"

definition example_upstream :: url where
  "example_upstream = \<lparr>Scheme = ''http'', User = None, Host = ''p1:8080'', Path = []\<rparr>"

definition example_proxy :: HTTPProxy where
  "example_proxy =
     \<lparr>config = example_config\<lparr>UpstreamProxy := Some example_upstream\<rparr>,
      pac = Some example_pac, creds = example_creds, mitmCACert = None, proxyFunc = None\<rparr>"

definition example_func :: ProxyFunc where
  "example_func =
     (\<lambda>r. Inr (Some \<lparr>Scheme = ''http'', User = None, Host = ''custom:3128'', Path = []\<rparr>))"

definition example_logdeps :: logdeps where
  "example_logdeps =
     \<lparr>Redacted = (\<lambda>u. Scheme u @ ''://'' @ Host u @ Path u),
      Duration_String = (\<lambda>d. fmt_int d @ ''ns''),
      copyRequest = (\<lambda>skipBody r. (Method r @ '' '' @ Path (URL r), None)),
      copyResponse = (\<lambda>skipBody r. (resp_Status r, None))\<rparr>"

text \<open>
  For the localhost classification: a request to a given host, a hosts file, and the
  answers of a network DNS that resolves \<open>example.com\<close> to 127.0.0.1.
\<close>

definition request_to :: "string \<Rightarrow> request" where
  "request_to host =
     \<lparr>Method = ''GET'',
      URL = \<lparr>Scheme = ''http'', User = None, Host = host, Path = ''/''\<rparr>,
      Header = Map.empty, Trace = None\<rparr>"

definition example_hosts :: "(string \<times> string) list" where
  "example_hosts =
     [(''127.0.0.1'', ''localhost''), (''::1'', ''localhost''), (''127.0.1.1'', ''myhost''),
      (''10.0.0.5'', ''foo''), (''127.0.0.1'', ''foo'')]"

definition example_dns :: "string \<Rightarrow> string list" where
  "example_dns h = (if h = ''example.com'' then [''127.0.0.1''] else [])"

section \<open>Properties\<close>

subsection \<open>Status passthrough\<close>

lemma statusText_table_distinct_phrases: "distinct (map snd statusText_table)"
  by (simp add: statusText_table_def)

lemma StatusText_table:
  assumes "StatusText c \<noteq> []"
  shows "(c, StatusText c) \<in> set statusText_table"
proof -
  from assms obtain s where s: "map_of statusText_table c = Some s"
    by (auto simp: StatusText_def split: option.splits)
  then have "StatusText c = s" by (simp add: StatusText_def)
  with s show ?thesis by (auto dest: map_of_SomeD)
qed

lemma StatusText_inj:
  assumes "StatusText c = StatusText d" and "StatusText c \<noteq> []"
  shows "c = d"
proof -
  have c: "(c, StatusText c) \<in> set statusText_table"
    using assms(2) by (rule StatusText_table)
  have d: "(d, StatusText c) \<in> set statusText_table"
    using assms StatusText_table [of d] by simp
  have "inj_on snd (set statusText_table)"
    using statusText_table_distinct_phrases by (simp add: distinct_map)
  from inj_onD [OF this _ c d] show ?thesis by simp
qed

lemma do_loop_finds:
  assumes "i \<le> c" and "c < 600" and "StatusText c = msg" and "msg \<noteq> []"
  shows "do_loop msg i = Some c"
  using assms
proof (induction msg i rule: do_loop.induct)
  case (1 msg i)
  show ?case
  proof (cases "msg = StatusText i")
    case True
    with "1.prems" have "c = i" using StatusText_inj [of c i] by simp
    with True "1.prems" show ?thesis by simp
  next
    case False
    with "1.prems" have "i \<noteq> c" by auto
    with "1.prems" have "i + 1 \<le> c" and "i < 600" by simp_all
    with False "1.IH" "1.prems" show ?thesis by simp
  qed
qed

text \<open>
  C1. For an \<open>https\<close> request whose round trip fails with an error whose message is the
  standard status phrase of a code \<open>c\<close> in 400..599 (a code that has a phrase:
  \<open>StatusText c\<close> is not empty), \<open>Client.do\<close> returns no error and a synthesized
  response with status code exactly \<open>c\<close>, protocol HTTP/1.1, empty header and empty
  body, whatever response the round tripper returned beside the error.
\<close>

theorem Client_do_status_passthrough:
  assumes "Scheme (URL req) = ''https''"
    and "rt req = (resp, Some msg)"
    and "400 \<le> c" and "c < 600"
    and "StatusText c = msg" and "msg \<noteq> []"
  shows "Client_do rt req =
           (Some \<lparr>StatusCode = c, resp_Status = msg, ProtoMajor = 1, ProtoMinor = 1,
                  resp_Header = Map.empty, resp_Body = [], resp_Request = req\<rparr>, None)"
proof -
  have "do_loop msg 400 = Some c"
    using assms(3-6) by (rule do_loop_finds)
  with assms show ?thesis by (simp add: Client_do_def)
qed

theorem Client_do_status_passthrough_witness:
  "Scheme (URL \<lparr>Method = ''GET'',
                 URL = \<lparr>Scheme = ''https'', User = None, Host = ''example.com'', Path = ''/''\<rparr>,
                 Header = Map.empty, Trace = None\<rparr>) = ''https'' \<and>
   StatusText 503 = ''Service Unavailable'' \<and>
   Client_do (\<lambda>r. (None, Some ''Service Unavailable''))
      \<lparr>Method = ''GET'',
       URL = \<lparr>Scheme = ''https'', User = None, Host = ''example.com'', Path = ''/''\<rparr>,
       Header = Map.empty, Trace = None\<rparr> =
     (Some \<lparr>StatusCode = 503, resp_Status = ''Service Unavailable'', ProtoMajor = 1,
            ProtoMinor = 1, resp_Header = Map.empty, resp_Body = [],
            resp_Request =
              \<lparr>Method = ''GET'',
               URL = \<lparr>Scheme = ''https'', User = None, Host = ''example.com'', Path = ''/''\<rparr>,
               Header = Map.empty, Trace = None\<rparr>\<rparr>, None)"
proof -
  have st: "StatusText 503 = ''Service Unavailable''"
    by (simp add: StatusText_def statusText_table_def)
  show ?thesis
    using Client_do_status_passthrough
      [of "\<lparr>Method = ''GET'',
            URL = \<lparr>Scheme = ''https'', User = None, Host = ''example.com'', Path = ''/''\<rparr>,
            Header = Map.empty, Trace = None\<rparr>"
          "\<lambda>r. (None, Some ''Service Unavailable'')" None "''Service Unavailable''" 503]
      st
    by simp
qed

subsection \<open>Localhost classification\<close>

text \<open>Evaluation of the address parsers and of the hosts file on concrete text.\<close>

lemma replicate_numeral: "replicate (numeral k) x = x # replicate (pred_numeral k) x"
  by (simp add: numeral_eq_Suc)

lemmas parse_eval =
  net_ParseIP_def ParseAddr_ok_def parseIPv4_def parseOctet_def dtoi_def digitVal_def
  parseIPv6_def parseIPv6_loop.simps xtoi_def hexVal_def replicate_numeral

lemmas hosts_eval =
  lookupStaticHost_def lowerASCII_def absDomainName_def

lemmas hostname_eval =
  request_to_def Hostname_def splitHostPort_def LastIndexByte_def validOptionalPort_def

text \<open>
  What \<open>isLocalhost\<close> computes from any resolver whose successful lookups return at
  least one address: only the first address counts.
\<close>

lemma isLocalhost_first_address:
  assumes "\<forall>addrs. lookupHost (Hostname (URL req)) = Inr addrs \<longrightarrow> addrs \<noteq> []"
  shows "isLocalhost lookupHost parseIP req =
           Inr (Hostname (URL req) = ''localhost'' \<or>
                (\<exists>a rest ip. lookupHost (Hostname (URL req)) = Inr (a # rest) \<and>
                             parseIP a = Some ip \<and> IsLoopback ip))"
  using assms
  by (auto simp: isLocalhost_def Let_def split: sum.splits list.splits option.splits)

text \<open>
  The lookup of the resolver that never dials: the IP literal itself, or the addresses
  of the hosts file, and an error when the hosts file has none. The answers of the
  network do not occur in it.
\<close>

lemma nopResolver_LookupHost:
  "Resolver_LookupHost nopResolver hosts dns host =
     (if host = [] then Inl ''no such host''
      else if ParseAddr_ok host then Inr [host]
      else (case lookupStaticHost hosts host of
              [] \<Rightarrow> Inl ''no DNS resolver configured''
            | a # addrs \<Rightarrow> Inr (a # addrs)))"
  by (simp add: Resolver_LookupHost_def nopResolver_def split: list.splits)

lemma nopResolver_LookupHost_nonempty:
  "Resolver_LookupHost nopResolver hosts dns host = Inr addrs \<Longrightarrow> addrs \<noteq> []"
  by (auto simp: nopResolver_LookupHost split: if_splits list.splits)

text \<open>
  C2, as amended. With the resolver that never dials, the classifier returns true if
  and only if the URL's host name is the literal \<open>localhost\<close>, or the first address that
  the lookup of the host name returns parses as an IP address that is a loopback
  address. The lookup returns an IP literal as it is and otherwise the addresses of the
  hosts file; it is the same whatever the network DNS would answer, and so is the
  classification: a name that is not \<open>localhost\<close>, not an IP literal and not in the hosts
  file is not classified localhost, even if the network DNS would resolve it to
  127.0.0.1.
\<close>

theorem isLocalhost_classification:
  "isLocalhost (Resolver_LookupHost nopResolver hosts dns) parseIP req =
     Inr (Hostname (URL req) = ''localhost'' \<or>
          (\<exists>a rest ip.
             Resolver_LookupHost nopResolver hosts dns (Hostname (URL req)) = Inr (a # rest) \<and>
             parseIP a = Some ip \<and> IsLoopback ip)) \<and>
   Resolver_LookupHost nopResolver hosts dns (Hostname (URL req)) =
     (if Hostname (URL req) = [] then Inl ''no such host''
      else if ParseAddr_ok (Hostname (URL req)) then Inr [Hostname (URL req)]
      else (case lookupStaticHost hosts (Hostname (URL req)) of
              [] \<Rightarrow> Inl ''no DNS resolver configured''
            | a # addrs \<Rightarrow> Inr (a # addrs))) \<and>
   isLocalhost (Resolver_LookupHost nopResolver hosts dns) parseIP req =
     isLocalhost (Resolver_LookupHost nopResolver hosts dns') parseIP req \<and>
   (Hostname (URL req) \<noteq> ''localhost'' \<and> \<not> ParseAddr_ok (Hostname (URL req)) \<and>
    lookupStaticHost hosts (Hostname (URL req)) = [] \<longrightarrow>
      isLocalhost (Resolver_LookupHost nopResolver hosts dns) parseIP req = Inr False)"
proof (intro conjI impI)
  show "isLocalhost (Resolver_LookupHost nopResolver hosts dns) parseIP req =
     Inr (Hostname (URL req) = ''localhost'' \<or>
          (\<exists>a rest ip.
             Resolver_LookupHost nopResolver hosts dns (Hostname (URL req)) = Inr (a # rest) \<and>
             parseIP a = Some ip \<and> IsLoopback ip))"
    by (rule isLocalhost_first_address) (auto dest: nopResolver_LookupHost_nonempty)
next
  show "Resolver_LookupHost nopResolver hosts dns (Hostname (URL req)) =
     (if Hostname (URL req) = [] then Inl ''no such host''
      else if ParseAddr_ok (Hostname (URL req)) then Inr [Hostname (URL req)]
      else (case lookupStaticHost hosts (Hostname (URL req)) of
              [] \<Rightarrow> Inl ''no DNS resolver configured''
            | a # addrs \<Rightarrow> Inr (a # addrs)))"
    by (rule nopResolver_LookupHost)
next
  have "Resolver_LookupHost nopResolver hosts dns = Resolver_LookupHost nopResolver hosts dns'"
    by (rule ext) (simp add: nopResolver_LookupHost)
  then show "isLocalhost (Resolver_LookupHost nopResolver hosts dns) parseIP req =
     isLocalhost (Resolver_LookupHost nopResolver hosts dns') parseIP req"
    by simp
next
  assume "Hostname (URL req) \<noteq> ''localhost'' \<and> \<not> ParseAddr_ok (Hostname (URL req)) \<and>
    lookupStaticHost hosts (Hostname (URL req)) = []"
  then show "isLocalhost (Resolver_LookupHost nopResolver hosts dns) parseIP req = Inr False"
    by (simp add: isLocalhost_def nopResolver_LookupHost Let_def)
qed

text \<open>
  On the hosts file \<open>example_hosts\<close> and a network DNS that resolves \<open>example.com\<close> to
  127.0.0.1: \<open>localhost\<close>, 127.0.0.1, 127.99.0.5, ::1 and \<open>myhost\<close> (127.0.1.1 in the
  hosts file) are classified localhost, and \<open>example.com\<close> is not.
\<close>

theorem isLocalhost_classification_witness:
  "isLocalhost (Resolver_LookupHost nopResolver example_hosts example_dns) net_ParseIP
     (request_to ''localhost:9'') = Inr True \<and>
   isLocalhost (Resolver_LookupHost nopResolver example_hosts example_dns) net_ParseIP
     (request_to ''127.0.0.1:9'') = Inr True \<and>
   isLocalhost (Resolver_LookupHost nopResolver example_hosts example_dns) net_ParseIP
     (request_to ''127.99.0.5'') = Inr True \<and>
   isLocalhost (Resolver_LookupHost nopResolver example_hosts example_dns) net_ParseIP
     (request_to ''[::1]:80'') = Inr True \<and>
   isLocalhost (Resolver_LookupHost nopResolver example_hosts example_dns) net_ParseIP
     (request_to ''MyHost:8080'') = Inr True \<and>
   example_dns ''example.com'' = [''127.0.0.1''] \<and>
   isLocalhost (Resolver_LookupHost nopResolver example_hosts example_dns) net_ParseIP
     (request_to ''example.com:80'') = Inr False"
proof -
  let ?L = "Resolver_LookupHost nopResolver example_hosts example_dns"
  have h1: "Hostname (URL (request_to ''localhost:9'')) = ''localhost''"
    by (simp add: hostname_eval)
  have h2: "Hostname (URL (request_to ''127.0.0.1:9'')) = ''127.0.0.1''"
    by (simp add: hostname_eval)
  have h3: "Hostname (URL (request_to ''127.99.0.5'')) = ''127.99.0.5''"
    by (simp add: hostname_eval)
  have h4: "Hostname (URL (request_to ''[::1]:80'')) = ''::1''"
    by (simp add: hostname_eval)
  have h5: "Hostname (URL (request_to ''MyHost:8080'')) = ''MyHost''"
    by (simp add: hostname_eval)
  have h6: "Hostname (URL (request_to ''example.com:80'')) = ''example.com''"
    by (simp add: hostname_eval)
  have k2: "?L ''127.0.0.1'' = Inr [''127.0.0.1'']"
    by (simp add: nopResolver_LookupHost parse_eval)
  have k3: "?L ''127.99.0.5'' = Inr [''127.99.0.5'']"
    by (simp add: nopResolver_LookupHost parse_eval)
  have k4: "?L ''::1'' = Inr [''::1'']"
    by (simp add: nopResolver_LookupHost parse_eval)
  have k5: "?L ''MyHost'' = Inr [''127.0.1.1'']"
    by (simp add: nopResolver_LookupHost example_hosts_def hosts_eval parse_eval)
  have p2: "\<exists>ip. net_ParseIP ''127.0.0.1'' = Some ip \<and> IsLoopback ip"
    by (simp add: parse_eval IsLoopback_def To4_def)
  have p3: "\<exists>ip. net_ParseIP ''127.99.0.5'' = Some ip \<and> IsLoopback ip"
    by (simp add: parse_eval IsLoopback_def To4_def)
  have p4: "\<exists>ip. net_ParseIP ''::1'' = Some ip \<and> IsLoopback ip"
    by (simp add: parse_eval IsLoopback_def To4_def IPv6loopback_def)
  have p5: "\<exists>ip. net_ParseIP ''127.0.1.1'' = Some ip \<and> IsLoopback ip"
    by (simp add: parse_eval IsLoopback_def To4_def)
  have n6: "\<not> ParseAddr_ok ''example.com''"
    by (simp add: parse_eval)
  have s6: "lookupStaticHost example_hosts ''example.com'' = []"
    by (simp add: example_hosts_def hosts_eval parse_eval)
  have a1: "isLocalhost ?L net_ParseIP (request_to ''localhost:9'') = Inr True"
    using isLocalhost_classification
      [of example_hosts example_dns net_ParseIP "request_to ''localhost:9''"] h1
    by simp
  have a2: "isLocalhost ?L net_ParseIP (request_to ''127.0.0.1:9'') = Inr True"
    using isLocalhost_classification
      [of example_hosts example_dns net_ParseIP "request_to ''127.0.0.1:9''"] h2 k2 p2
    by simp
  have a3: "isLocalhost ?L net_ParseIP (request_to ''127.99.0.5'') = Inr True"
    using isLocalhost_classification
      [of example_hosts example_dns net_ParseIP "request_to ''127.99.0.5''"] h3 k3 p3
    by simp
  have a4: "isLocalhost ?L net_ParseIP (request_to ''[::1]:80'') = Inr True"
    using isLocalhost_classification
      [of example_hosts example_dns net_ParseIP "request_to ''[::1]:80''"] h4 k4 p4
    by simp
  have a5: "isLocalhost ?L net_ParseIP (request_to ''MyHost:8080'') = Inr True"
    using isLocalhost_classification
      [of example_hosts example_dns net_ParseIP "request_to ''MyHost:8080''"] h5 k5 p5
    by simp
  have a6: "isLocalhost ?L net_ParseIP (request_to ''example.com:80'') = Inr False"
    using isLocalhost_classification
      [of example_hosts example_dns net_ParseIP "request_to ''example.com:80''"] h6 n6 s6
    by simp
  have d: "example_dns ''example.com'' = [''127.0.0.1'']"
    by (simp add: example_dns_def)
  from a1 a2 a3 a4 a5 a6 d show ?thesis by simp
qed

text \<open>
  It is the failing \<open>Dial\<close> that keeps the network out: the same lookup through a
  resolver whose \<open>Dial\<close> succeeds classifies \<open>example.com\<close> as localhost.
\<close>

lemma dialing_resolver_follows_dns:
  "isLocalhost
     (Resolver_LookupHost \<lparr>Dial = (\<lambda>network address. Inr 0)\<rparr>
        example_hosts example_dns)
     net_ParseIP (request_to ''example.com:80'') = Inr True"
  by (simp add: isLocalhost_def Resolver_LookupHost_def example_hosts_def example_dns_def
      hostname_eval hosts_eval parse_eval IsLoopback_def To4_def)

text \<open>
  With "an address" in place of "the first address" the property fails: the hosts file
  \<open>example_hosts\<close> has two lines for \<open>foo\<close>, the lookup of \<open>foo\<close> returns 10.0.0.5 and
  127.0.0.1, 127.0.0.1 is an IP address that is a loopback address, and \<open>foo\<close> is not
  classified localhost.
\<close>

theorem isLocalhost_later_loopback_address:
  "Resolver_LookupHost nopResolver example_hosts example_dns
     (Hostname (URL (request_to ''foo''))) = Inr [''10.0.0.5'', ''127.0.0.1''] \<and>
   net_ParseIP ''127.0.0.1'' = Some [0, 0, 0, 0, 0, 0, 0, 0, 0, 0, 255, 255, 127, 0, 0, 1] \<and>
   IsLoopback [0, 0, 0, 0, 0, 0, 0, 0, 0, 0, 255, 255, 127, 0, 0, 1] \<and>
   isLocalhost (Resolver_LookupHost nopResolver example_hosts example_dns) net_ParseIP
     (request_to ''foo'') = Inr False"
  by (simp add: isLocalhost_def nopResolver_LookupHost example_hosts_def hostname_eval
      hosts_eval parse_eval IsLoopback_def To4_def)

subsection \<open>Upstream selection\<close>

text \<open>
  C3. An upstream candidate of a PAC result carries a mode, a host and a port, so the
  URL that \<open>Proxy.URL\<close> builds from it has no user-info: that is the hypothesis on the
  parameter \<open>Proxy_URL\<close>. Then, for the static upstream URL (\<open>upstreamProxyURL\<close>) and for
  the URL of the first PAC candidate (\<open>pacProxy\<close>) alike: when the selected URL has no
  user-info the credential matcher is asked about that URL and, on a match, the matched
  user-info is attached (no match leaves the URL as it is); a selected URL that has
  user-info is returned unchanged.
\<close>

theorem upstream_userinfo:
  assumes "\<And>q V. Proxy_URL x q = Some V \<Longrightarrow> User V = None"
  shows
    "(UpstreamProxy (config hp) = Some U \<longrightarrow>
        upstreamProxyURL hp =
          Inr (if User U = None
               then (case creds hp (Some U) of Some u \<Rightarrow> U\<lparr>User := Some u\<rparr> | None \<Rightarrow> U)
               else U)) \<and>
     (pac hp = Some P \<and> P (URL r) [] = Inr s \<and> Proxies_First x s = Inr p \<and>
      Proxy_URL x p = Some V \<longrightarrow>
        pacProxy x hp r =
          Inr (Some (if User V = None
                     then (case creds hp (Some V) of Some u \<Rightarrow> V\<lparr>User := Some u\<rparr> | None \<Rightarrow> V)
                     else V)))"
proof (intro conjI impI)
  assume "UpstreamProxy (config hp) = Some U"
  then show "upstreamProxyURL hp =
          Inr (if User U = None
               then (case creds hp (Some U) of Some u \<Rightarrow> U\<lparr>User := Some u\<rparr> | None \<Rightarrow> U)
               else U)"
    by (simp add: upstreamProxyURL_def split: option.splits)
next
  assume a: "pac hp = Some P \<and> P (URL r) [] = Inr s \<and> Proxies_First x s = Inr p \<and>
      Proxy_URL x p = Some V"
  then have "User V = None" using assms by blast
  with a show "pacProxy x hp r =
          Inr (Some (if User V = None
                     then (case creds hp (Some V) of Some u \<Rightarrow> V\<lparr>User := Some u\<rparr> | None \<Rightarrow> V)
                     else V))"
    by (simp add: pacProxy_def split: option.splits)
qed

theorem upstream_userinfo_witness:
  "upstreamProxyURL example_proxy =
     Inr (example_upstream
            \<lparr>User := Some \<lparr>username = ''user'', password = ''pass'', passwordSet = True\<rparr>\<rparr>) \<and>
   pacProxy example_extern example_proxy example_request =
     Inr (Some (example_upstream
            \<lparr>User := Some \<lparr>username = ''user'', password = ''pass'', passwordSet = True\<rparr>\<rparr>))"
proof -
  have c: "\<And>q V. Proxy_URL example_extern q = Some V \<Longrightarrow> User V = None"
    by (auto simp: example_extern_def split: if_splits)
  show ?thesis
    using upstream_userinfo [where x = example_extern and hp = example_proxy
        and U = example_upstream and P = example_pac and r = example_request
        and s = "''PROXY p1:8080; DIRECT''"
        and p = "\<lparr>proxy_Mode = PROXY, proxy_Host = ''p1'', proxy_Port = ''8080''\<rparr>"
        and V = example_upstream, OF c]
    by (simp add: example_proxy_def example_upstream_def example_pac_def example_extern_def
        example_creds_def)
qed

text \<open>The MITM certificate is not read by either selector.\<close>

lemma upstreamProxyURL_mitmCACert [simp]:
  "upstreamProxyURL (hp\<lparr>mitmCACert := c\<rparr>) = upstreamProxyURL hp"
  by (simp add: upstreamProxyURL_def split: option.splits)

lemma pacProxy_mitmCACert [simp]:
  "pacProxy x (hp\<lparr>mitmCACert := c\<rparr>) = pacProxy x hp"
  by (rule ext) (simp add: pacProxy_def split: option.splits sum.splits)

text \<open>
  C5. With both a static upstream URL and a PAC resolver, \<open>newHTTPProxy\<close> returns an
  error and no proxy. With at most one of upstream URL, PAC resolver and upstream
  function set, the gate adds nothing: the result is the validation error if validation
  fails, and otherwise whatever \<open>configureProxy\<close> returns for the proxy built from the
  arguments.
\<close>

theorem newHTTPProxy_gate:
  "(UpstreamProxy cfg \<noteq> None \<and> pr \<noteq> None \<longrightarrow> (\<exists>e. newHTTPProxy x cfg pr cm = Inl e)) \<and>
   (length (filter id [UpstreamProxy cfg \<noteq> None, pr \<noteq> None, UpstreamProxyFunc cfg \<noteq> None]) \<le> 1 \<longrightarrow>
      newHTTPProxy x cfg pr cm =
        (case Validate x cfg of
           Some e \<Rightarrow> Inl e
         | None \<Rightarrow>
             configureProxy x
               \<lparr>config = cfg, pac = pr, creds = cm, mitmCACert = None, proxyFunc = None\<rparr>))"
  by (auto simp: newHTTPProxy_def split: option.splits)

theorem newHTTPProxy_gate_witness:
  "newHTTPProxy example_extern (example_config\<lparr>UpstreamProxy := Some example_upstream\<rparr>)
     (Some example_pac) example_creds =
     Inl (Error ''cannot use both upstream proxy and PAC'') \<and>
   newHTTPProxy example_extern example_config (Some example_pac) example_creds =
     configureProxy example_extern
       \<lparr>config = example_config, pac = Some example_pac, creds = example_creds,
        mitmCACert = None, proxyFunc = None\<rparr>"
proof -
  have v: "Validate example_extern example_config = None"
    by (simp add: Validate_def example_extern_def example_config_def HTTPScheme_def
        HTTPSScheme_def isValid_def DenyProxyLocalhost_def)
  have a: "newHTTPProxy example_extern (example_config\<lparr>UpstreamProxy := Some example_upstream\<rparr>)
     (Some example_pac) example_creds =
     Inl (Error ''cannot use both upstream proxy and PAC'')"
    by (simp add: newHTTPProxy_def Validate_def example_extern_def example_config_def
        HTTPScheme_def HTTPSScheme_def isValid_def DenyProxyLocalhost_def)
  have b: "newHTTPProxy example_extern example_config (Some example_pac) example_creds =
     configureProxy example_extern
       \<lparr>config = example_config, pac = Some example_pac, creds = example_creds,
        mitmCACert = None, proxyFunc = None\<rparr>"
    using newHTTPProxy_gate [of example_config "Some example_pac" example_extern example_creds] v
    by (simp add: example_config_def)
  from a b show ?thesis by simp
qed

text \<open>
  C4. \<open>configureProxy\<close> takes the first source that is set, in the order custom
  function, static upstream URL, PAC resolver, and none of them means DIRECT (no proxy
  function). Stated on the proxy function it installs, for a proxy built with no proxy
  function yet and a request that the wrappers do not send DIRECT (its host is not a
  direct domain, and it is not localhost when localhost goes direct): with a custom
  function the request gets that function's answer, whatever else is set; without one,
  a static upstream URL is the answer (with the matched credentials), whether or not a
  PAC resolver is set; with neither, the PAC resolver answers; with none of the three,
  no proxy function is installed.
\<close>

theorem upstream_selection_order:
  assumes ok: "configureProxy x hp = Inr hp'"
    and nil: "proxyFunc hp = None"
    and nd: "\<forall>M. DirectDomains (config hp) = Some M \<longrightarrow> \<not> M (Hostname (URL r))"
    and nl: "ProxyLocalhost (config hp) = DirectProxyLocalhost \<longrightarrow>
               isLocalhost (LookupHost x) (ParseIP x) r = Inr False"
  shows
    "(UpstreamProxyFunc (config hp) = Some f \<longrightarrow>
        (\<exists>g. proxyFunc hp' = Some g \<and> g r = f r)) \<and>
     (UpstreamProxyFunc (config hp) = None \<and> UpstreamProxy (config hp) = Some U \<longrightarrow>
        (\<exists>g u. proxyFunc hp' = Some g \<and> upstreamProxyURL hp = Inr u \<and> g r = Inr (Some u))) \<and>
     (UpstreamProxyFunc (config hp) = None \<and> UpstreamProxy (config hp) = None \<and>
      pac hp = Some P \<longrightarrow>
        (\<exists>g. proxyFunc hp' = Some g \<and> g r = pacProxy x hp r)) \<and>
     (UpstreamProxyFunc (config hp) = None \<and> UpstreamProxy (config hp) = None \<and>
      pac hp = None \<longrightarrow>
        proxyFunc hp' = None)"
  using ok nil nd nl
  by (auto simp: configureProxy_def Let_def directDomains_def directLocalhost_def ProxyURL_def
      split: option.splits sum.splits if_splits)

theorem upstream_selection_order_witness:
  "\<exists>hp' g.
     configureProxy example_extern
       (example_proxy
          \<lparr>config := example_config
             \<lparr>UpstreamProxy := Some example_upstream,
              UpstreamProxyFunc := Some example_func,
              DirectDomains := Some (\<lambda>h. h = ''internal.corp''),
              ProxyLocalhost := ''direct''\<rparr>\<rparr>) = Inr hp' \<and>
     proxyFunc hp' = Some g \<and>
     g example_request =
       Inr (Some \<lparr>Scheme = ''http'', User = None, Host = ''custom:3128'', Path = []\<rparr>)"
proof -
  let ?hp = "example_proxy
          \<lparr>config := example_config
             \<lparr>UpstreamProxy := Some example_upstream,
              UpstreamProxyFunc := Some example_func,
              DirectDomains := Some (\<lambda>h. h = ''internal.corp''),
              ProxyLocalhost := ''direct''\<rparr>\<rparr>"
  have "\<exists>hp'. configureProxy example_extern ?hp = Inr hp'"
    by (simp add: configureProxy_def example_proxy_def example_config_def
        DirectProxyLocalhost_def Let_def)
  then obtain hp' where ok: "configureProxy example_extern ?hp = Inr hp'" ..
  have nil: "proxyFunc ?hp = None"
    by (simp add: example_proxy_def)
  have h: "Hostname (URL example_request) = ''example.com''"
    by (simp add: example_request_def Hostname_def splitHostPort_def LastIndexByte_def
        validOptionalPort_def)
  have nd: "\<forall>M. DirectDomains (config ?hp) = Some M \<longrightarrow>
              \<not> M (Hostname (URL example_request))"
    using h by (simp add: example_proxy_def example_config_def)
  have "isLocalhost (LookupHost example_extern) (ParseIP example_extern) example_request =
          Inr False"
    using h
    by (simp add: isLocalhost_def example_extern_def nopResolver_LookupHost hosts_eval
        parse_eval)
  then have nl: "ProxyLocalhost (config ?hp) = DirectProxyLocalhost \<longrightarrow>
              isLocalhost (LookupHost example_extern) (ParseIP example_extern) example_request =
                Inr False"
    by simp
  have "\<exists>g. proxyFunc hp' = Some g \<and> g example_request = example_func example_request"
    using upstream_selection_order [where x = example_extern and hp = ?hp and hp' = hp'
        and r = example_request and f = example_func, OF ok nil nd nl]
    by (simp add: example_proxy_def example_config_def)
  then obtain g where "proxyFunc hp' = Some g"
    and "g example_request = example_func example_request" by blast
  with ok show ?thesis by (auto simp: example_func_def)
qed

subsection \<open>Hijack exclusivity\<close>

text \<open>Once set, the hijacked flag stays set, whatever method is called.\<close>

lemma hijacked_call_step: "hijacked s \<Longrightarrow> hijacked (snd (call_step c s))"
  by (cases c)
     (simp_all add: Hijack_def HijackResponseWriter_def MarkSecure_def MarkInsecure_def
        Session_Set_def)

lemma hijacked_run_calls: "hijacked s \<Longrightarrow> hijacked (run_calls cs s)"
  by (induction cs arbitrary: s) (simp_all add: hijacked_call_step)

lemma hijack_success_hijacked:
  assumes "is_hijack c" and "call_step c s = (None, s')"
  shows "hijacked s'"
  using assms
  by (cases c)
     (auto simp: Hijack_def HijackResponseWriter_def
        split: if_splits option.splits sum.splits err.splits)

lemma hijack_after_hijacked:
  assumes "is_hijack c" and "hijacked s"
  shows "call_step c s = (Some (Error ''session has already been hijacked''), s)"
  using assms by (cases c) (simp_all add: Hijack_def HijackResponseWriter_def)

text \<open>
  C8. After a call of \<open>Hijack\<close> or \<open>HijackResponseWriter\<close> that returned no error, and
  after any further calls of the session's methods, every call of \<open>Hijack\<close> or
  \<open>HijackResponseWriter\<close> returns the error "session has already been hijacked".
\<close>

theorem hijack_exclusive:
  assumes "is_hijack c1" and "call_step c1 s = (None, s1)" and "is_hijack c2"
  shows "fst (call_step c2 (run_calls cs s1)) =
           Some (Error ''session has already been hijacked'')"
proof -
  have "hijacked s1" using assms(1,2) by (rule hijack_success_hijacked)
  then have "hijacked (run_calls cs s1)" by (rule hijacked_run_calls)
  with assms(3) show ?thesis by (simp add: hijack_after_hijacked)
qed

theorem hijack_exclusive_witness:
  "call_step (Call_Hijack (\<lambda>w. Inl (Error ''feature not supported''))) (newSession 7 (Some 8)) =
     (None, (newSession 7 (Some 8))\<lparr>hijacked := True\<rparr>) \<and>
   fst (call_step Call_HijackResponseWriter
          (run_calls [Call_MarkSecure, Call_Set ''k'' ''v'', Call_Hijacked]
             ((newSession 7 (Some 8))\<lparr>hijacked := True\<rparr>))) =
     Some (Error ''session has already been hijacked'') \<and>
   call_step Call_HijackResponseWriter (newSessionWithResponseWriter 3) =
     (None, (newSessionWithResponseWriter 3)\<lparr>hijacked := True\<rparr>) \<and>
   fst (call_step (Call_Hijack (\<lambda>w. Inr (1, None)))
          (run_calls [] ((newSessionWithResponseWriter 3)\<lparr>hijacked := True\<rparr>))) =
     Some (Error ''session has already been hijacked'')"
proof -
  have a: "call_step (Call_Hijack (\<lambda>w. Inl (Error ''feature not supported'')))
             (newSession 7 (Some 8)) =
           (None, (newSession 7 (Some 8))\<lparr>hijacked := True\<rparr>)"
    by (simp add: Hijack_def newSession_def)
  have b: "call_step Call_HijackResponseWriter (newSessionWithResponseWriter 3) =
     (None, (newSessionWithResponseWriter 3)\<lparr>hijacked := True\<rparr>)"
    by (simp add: HijackResponseWriter_def newSessionWithResponseWriter_def)
  show ?thesis
    using a b
      hijack_exclusive [OF _ a, of Call_HijackResponseWriter
        "[Call_MarkSecure, Call_Set ''k'' ''v'', Call_Hijacked]"]
      hijack_exclusive [OF _ b, of "Call_Hijack (\<lambda>w. Inr (1, None))" "[]"]
    by simp
qed

subsection \<open>Log mode errors\<close>

text \<open>
  C9. In mode \<open>errors\<close> the logging function hands something to the log exactly for
  the entries whose status is at least 500 (one string: the short URL line and the
  dump); for a status below 500 it logs nothing.
\<close>

theorem LogFunc_errors:
  "\<exists>f. LogFunc x httplog_Errors = Inr f \<and>
        (\<forall>e. (f e \<noteq> []) = (500 \<le> Status e)) \<and>
        (\<forall>e. f e = (if 500 \<le> Status e then [Dump x False e (ShortURLLine x e [])] else []))"
  by (auto simp: LogFunc_def httplog_Errors_def httplog_None_def httplog_ShortURL_def
      httplog_URL_def httplog_Headers_def httplog_Body_def)

theorem LogFunc_errors_witness:
  "\<exists>f. LogFunc example_logdeps ''errors'' = Inr f \<and>
        f \<lparr>Request = example_request, Response = None, Status = 503, Duration = 1500\<rparr> =
          [''GET http://example.com:80/ status=503 duration=1500ns'' @ [CHR 0x0A] @
           ''GET /'' @ [CHR 0x0A]] \<and>
        f \<lparr>Request = example_request, Response = None, Status = 200, Duration = 1500\<rparr> = [] \<and>
        f \<lparr>Request = example_request, Response = None, Status = 499, Duration = 1500\<rparr> = [] \<and>
        f \<lparr>Request = example_request, Response = None, Status = 500, Duration = 1500\<rparr> \<noteq> []"
proof -
  from LogFunc_errors [of example_logdeps] obtain f
    where f: "LogFunc example_logdeps httplog_Errors = Inr f"
      and val: "\<forall>e. f e = (if 500 \<le> Status e
                            then [Dump example_logdeps False e (ShortURLLine example_logdeps e [])]
                            else [])"
    by blast
  from f have "LogFunc example_logdeps ''errors'' = Inr f"
    by (simp add: httplog_Errors_def)
  moreover have
    "f \<lparr>Request = example_request, Response = None, Status = 503, Duration = 1500\<rparr> =
       [''GET http://example.com:80/ status=503 duration=1500ns'' @ [CHR 0x0A] @
        ''GET /'' @ [CHR 0x0A]]"
    using val
    by (simp add: Dump_def dump_def ShortURLLine_def trace_def example_request_def
        example_logdeps_def fmt_int_def fmt_d.simps Let_def)
  moreover have
    "f \<lparr>Request = example_request, Response = None, Status = 200, Duration = 1500\<rparr> = []"
    "f \<lparr>Request = example_request, Response = None, Status = 499, Duration = 1500\<rparr> = []"
    "f \<lparr>Request = example_request, Response = None, Status = 500, Duration = 1500\<rparr> \<noteq> []"
    using val by simp_all
  ultimately show ?thesis by blast
qed

subsection \<open>Basic-auth injection\<close>

text \<open>
  C10. \<open>setBasicAuth\<close> leaves a request whose \<open>Authorization\<close> header is not empty as it
  is; a request without one is changed only when the credential matcher matches its
  URL, and then by \<open>SetBasicAuth\<close> with the matched user name and password; the
  returned error is always \<open>nil\<close>.
\<close>

theorem setBasicAuth_frame:
  "(Header_Get (Header req) ''Authorization'' \<noteq> [] \<longrightarrow>
      setBasicAuth matchURL req = (req, None)) \<and>
   (Header_Get (Header req) ''Authorization'' = [] \<and> matchURL (Some (URL req)) = None \<longrightarrow>
      setBasicAuth matchURL req = (req, None)) \<and>
   (Header_Get (Header req) ''Authorization'' = [] \<and> matchURL (Some (URL req)) = Some u \<longrightarrow>
      setBasicAuth matchURL req = (SetBasicAuth req (username u) (password u), None)) \<and>
   snd (setBasicAuth matchURL req) = None"
  by (simp add: setBasicAuth_def split: option.splits)

theorem setBasicAuth_frame_witness:
  "setBasicAuth example_creds
     (example_request\<lparr>Header := [''Authorization'' \<mapsto> [''Bearer t'']]\<rparr>) =
     (example_request\<lparr>Header := [''Authorization'' \<mapsto> [''Bearer t'']]\<rparr>, None) \<and>
   setBasicAuth example_creds example_request = (example_request, None) \<and>
   setBasicAuth example_creds (example_request\<lparr>URL := example_upstream\<rparr>) =
     (SetBasicAuth (example_request\<lparr>URL := example_upstream\<rparr>) ''user'' ''pass'', None) \<and>
   Header_Get (Header (SetBasicAuth (example_request\<lparr>URL := example_upstream\<rparr>) ''user'' ''pass''))
     ''Authorization'' = ''Basic dXNlcjpwYXNz''"
proof -
  have g: "Header_Get (Header (SetBasicAuth (example_request\<lparr>URL := example_upstream\<rparr>) ''user'' ''pass''))
     ''Authorization'' = ''Basic dXNlcjpwYXNz''"
    by (simp add: SetBasicAuth_def Header_Get_def Header_Set_def basicAuth_def EncodeToString_def
        encodeStd_def)
  show ?thesis
    using
      setBasicAuth_frame [of "example_request\<lparr>Header := [''Authorization'' \<mapsto> [''Bearer t'']]\<rparr>"
        example_creds]
      setBasicAuth_frame [of example_request example_creds]
      setBasicAuth_frame [of "example_request\<lparr>URL := example_upstream\<rparr>" example_creds
        "\<lparr>username = ''user'', password = ''pass'', passwordSet = True\<rparr>"]
      g
    by (simp add: Header_Get_def example_request_def example_creds_def example_upstream_def)
qed

subsection \<open>Context identifiers\<close>

text \<open>
  The decimal rendering can be read back, and it has no hyphen: the text before the
  first hyphen of an ID determines the counter value.
\<close>

lemma digitVal_digit: "k < 10 \<Longrightarrow> digitVal (''0123456789'' ! k) = k"
proof -
  assume "k < 10"
  then have "k = 0 \<or> k = 1 \<or> k = 2 \<or> k = 3 \<or> k = 4 \<or> k = 5 \<or> k = 6 \<or> k = 7 \<or> k = 8 \<or> k = 9"
    by arith
  then show ?thesis by (auto simp: digitVal_def)
qed

lemma dtoi_snoc: "dtoi (xs @ [c]) = 10 * dtoi xs + digitVal c"
  by (simp add: dtoi_def)

lemma dtoi_fmt_d: "dtoi (fmt_d k) = k"
proof (induction k rule: fmt_d.induct)
  case (1 k)
  show ?case
  proof (cases "k < 10")
    case True
    then have "fmt_d k = [''0123456789'' ! k]" by (subst fmt_d.simps) simp
    with True show ?thesis by (simp add: dtoi_def digitVal_digit)
  next
    case False
    then have "fmt_d k = fmt_d (k div 10) @ [''0123456789'' ! (k mod 10)]"
      by (subst fmt_d.simps) simp
    with False "1.IH" show ?thesis by (simp add: dtoi_snoc digitVal_digit)
  qed
qed

lemma fmt_d_digits: "set (fmt_d k) \<subseteq> set ''0123456789''"
proof (induction k rule: fmt_d.induct)
  case (1 k)
  have d: "''0123456789'' ! j \<in> set ''0123456789''" if "j < 10" for j
    by (rule nth_mem) (use that in simp)
  show ?case
  proof (cases "k < 10")
    case True
    then have "fmt_d k = [''0123456789'' ! k]" by (subst fmt_d.simps) simp
    with d [OF True] show ?thesis by simp
  next
    case False
    then have "fmt_d k = fmt_d (k div 10) @ [''0123456789'' ! (k mod 10)]"
      by (subst fmt_d.simps) simp
    moreover have "''0123456789'' ! (k mod 10) \<in> set ''0123456789''"
      by (rule d) simp
    ultimately show ?thesis using False "1.IH" by simp
  qed
qed

lemma fmt_d_no_dash: "CHR ''-'' \<notin> set (fmt_d k)"
  using fmt_d_digits [of k] by auto

lemma prefix_before_separator:
  assumes "c \<notin> set xs" and "c \<notin> set ys" and "xs @ c # a = ys @ c # b"
  shows "xs = ys"
proof -
  have "takeWhile (\<lambda>x. x \<noteq> c) (xs @ c # a) = xs"
    using assms(1) by (subst takeWhile_append2) auto
  moreover have "takeWhile (\<lambda>x. x \<noteq> c) (ys @ c # b) = ys"
    using assms(2) by (subst takeWhile_append2) auto
  ultimately show ?thesis using assms(3) by simp
qed

lemma ID_determines_n:
  assumes "ID c1 = ID c2"
  shows "ctx_n c1 = ctx_n c2"
proof -
  have e: "fmt_d (unat (ctx_n c1)) @ CHR ''-'' # fmt_08x (unat (ctx_hash c1)) =
           fmt_d (unat (ctx_n c2)) @ CHR ''-'' # fmt_08x (unat (ctx_hash c2))"
    using assms by (simp add: ID_def)
  have "fmt_d (unat (ctx_n c1)) = fmt_d (unat (ctx_n c2))"
    by (rule prefix_before_separator [OF fmt_d_no_dash fmt_d_no_dash e])
  then have "dtoi (fmt_d (unat (ctx_n c1))) = dtoi (fmt_d (unat (ctx_n c2)))" by simp
  then have "unat (ctx_n c1) = unat (ctx_n c2)" by (simp add: dtoi_fmt_d)
  then show ?thesis by (simp add: word_unat_eq_iff)
qed

lemma length_contexts [simp]: "length (contexts k cs) = length cs"
  by (induction cs arbitrary: k) (auto simp: withSession_def)

lemma contexts_nth:
  "i < length cs \<Longrightarrow>
     contexts k cs ! i =
       \<lparr>ctx_session = fst (cs ! i), ctx_n = k + of_nat (i + 1), ctx_hash = ucast (snd (cs ! i)),
        ctx_vals = Map.empty, skipRoundTrip = False\<rparr>"
proof (induction cs arbitrary: k i)
  case Nil
  then show ?case by simp
next
  case (Cons a cs)
  obtain s now where a: "a = (s, now)" by (cases a)
  show ?case
  proof (cases i)
    case 0
    with a show ?thesis by (simp add: withSession_def)
  next
    case (Suc j)
    with Cons.prems have "j < length cs" by simp
    from Cons.IH [OF this, of "k + 1"] a Suc show ?thesis
      by (simp add: withSession_def add.assoc)
  qed
qed

lemma unat_counter:
  assumes "i < length cs" and "length cs < 2 ^ 64"
  shows "unat (ctx_n (contexts 0 cs ! i)) = i + 1"
proof -
  have "i + 1 < 2 ^ 64" using assms by simp
  then have "unat (of_nat (i + 1) :: 64 word) = i + 1"
    by (simp add: unat_of_nat del: of_nat_Suc of_nat_add)
  with assms(1) show ?thesis by (simp add: contexts_nth del: of_nat_Suc of_nat_add)
qed

text \<open>
  C6. The IDs of two different contexts of one process differ, as long as the process
  has created fewer than \<open>2^64\<close> contexts (the counter has not wrapped around).
\<close>

theorem context_IDs_distinct:
  assumes "length cs < 2 ^ 64" and "i < j" and "j < length cs"
  shows "ID (contexts 0 cs ! i) \<noteq> ID (contexts 0 cs ! j)"
proof
  assume "ID (contexts 0 cs ! i) = ID (contexts 0 cs ! j)"
  then have "ctx_n (contexts 0 cs ! i) = ctx_n (contexts 0 cs ! j)"
    by (rule ID_determines_n)
  then have "unat (ctx_n (contexts 0 cs ! i)) = unat (ctx_n (contexts 0 cs ! j))" by simp
  moreover have "unat (ctx_n (contexts 0 cs ! i)) = i + 1"
    using assms by (intro unat_counter) simp_all
  moreover have "unat (ctx_n (contexts 0 cs ! j)) = j + 1"
    using assms by (intro unat_counter) simp_all
  ultimately show False using assms(2) by simp
qed

theorem context_IDs_distinct_witness:
  "ID (contexts 0 [(newSession 0 None, 5), (newSession 0 None, 5)] ! 0) \<noteq>
   ID (contexts 0 [(newSession 0 None, 5), (newSession 0 None, 5)] ! 1)"
  using context_IDs_distinct [of "[(newSession 0 None, 5), (newSession 0 None, 5)]" 0 1]
  by simp

text \<open>The salt of a context is printed with exactly eight hexadecimal digits.\<close>

lemma length_fmt_x: "0 < m \<Longrightarrow> k < 16 ^ m \<Longrightarrow> length (fmt_x k) \<le> m"
proof (induction k arbitrary: m rule: fmt_x.induct)
  case (1 k)
  show ?case
  proof (cases "k < 16")
    case True
    then have "fmt_x k = [''0123456789abcdef'' ! k]" by (subst fmt_x.simps) simp
    with "1.prems" show ?thesis by simp
  next
    case False
    then have e: "fmt_x k = fmt_x (k div 16) @ [''0123456789abcdef'' ! (k mod 16)]"
      by (subst fmt_x.simps) simp
    from "1.prems" obtain m' where m: "m = Suc m'" by (cases m) auto
    have "0 < m'"
    proof (rule ccontr)
      assume "\<not> 0 < m'"
      with m "1.prems" False show False by simp
    qed
    moreover have "k div 16 < 16 ^ m'"
      using "1.prems"(2) m by (simp add: less_mult_imp_div_less mult.commute)
    ultimately have "length (fmt_x (k div 16)) \<le> m'"
      using False by (intro "1.IH") simp_all
    with e m show ?thesis by simp
  qed
qed

lemma length_fmt_08x:
  fixes w :: "32 word"
  shows "length (fmt_08x (unat w)) = 8"
proof -
  have "unat w < 2 ^ 32" using unsigned_less [of w, where ?'a = nat] by simp
  then have "unat w < 16 ^ 8" by simp
  then have "length (fmt_x (unat w)) \<le> 8" by (intro length_fmt_x) simp_all
  then show ?thesis by (simp add: fmt_08x_def)
qed

text \<open>
  C7, as amended. The ID of a context is the decimal rendering of its counter value, a
  hyphen, and the \<open>%08x\<close> rendering of its salt, which has eight hexadecimal digits.
  The counter value of the \<open>j\<close>-th context (counting from 0) is \<open>j + 1\<close>, larger than
  that of every context created before it, as long as the process has created fewer
  than \<open>2^64\<close> contexts. The salt is the low 32 bits of the clock reading at the creation of that
  context: it is taken anew for every context and is not a constant of the process.
\<close>

theorem context_ID_components:
  assumes "length cs < 2 ^ 64" and "j < length cs"
  shows "(\<forall>i<j. unat (ctx_n (contexts 0 cs ! i)) < unat (ctx_n (contexts 0 cs ! j))) \<and>
         unat (ctx_n (contexts 0 cs ! j)) = j + 1 \<and>
         ctx_hash (contexts 0 cs ! j) = ucast (snd (cs ! j)) \<and>
         ID (contexts 0 cs ! j) =
           fmt_d (j + 1) @ ''-'' @ fmt_08x (unat (ucast (snd (cs ! j)) :: 32 word)) \<and>
         length (fmt_08x (unat (ctx_hash (contexts 0 cs ! j)))) = 8"
proof -
  have i: "unat (ctx_n (contexts 0 cs ! i)) = i + 1" if "i < j" for i
    using assms that by (intro unat_counter) simp_all
  have j: "unat (ctx_n (contexts 0 cs ! j)) = j + 1"
    using assms by (intro unat_counter) simp_all
  have h: "ctx_hash (contexts 0 cs ! j) = ucast (snd (cs ! j))"
    using assms(2) by (simp add: contexts_nth)
  from i j h show ?thesis by (simp add: ID_def length_fmt_08x)
qed

theorem context_ID_components_witness:
  "unat (ctx_n (contexts 0 [(newSession 0 None, 7), (newSession 0 None, 4294967301)] ! 0)) <
   unat (ctx_n (contexts 0 [(newSession 0 None, 7), (newSession 0 None, 4294967301)] ! 1)) \<and>
   unat (ctx_n (contexts 0 [(newSession 0 None, 7), (newSession 0 None, 4294967301)] ! 1)) = 2 \<and>
   ctx_hash (contexts 0 [(newSession 0 None, 7), (newSession 0 None, 4294967301)] ! 1) = 5"
  using context_ID_components
    [of "[(newSession 0 None, 7), (newSession 0 None, 4294967301)]" 1]
  by simp

text \<open>
  The salt is not the same for all contexts of a process: two contexts of one process,
  created at clock readings 0 and 1, have the salts 0 and 1 (and the IDs
  \<open>1-00000000\<close> and \<open>2-00000001\<close>).
\<close>

lemma replicate_7: "replicate 7 x = [x, x, x, x, x, x, x]"
  by (simp add: numeral_eq_Suc)

theorem context_salts_differ:
  "map ID (contexts 0 [(newSession 0 None, 0), (newSession 0 None, 1)]) =
     [''1-00000000'', ''2-00000001''] \<and>
   ctx_hash (contexts 0 [(newSession 0 None, 0), (newSession 0 None, 1)] ! 0) \<noteq>
   ctx_hash (contexts 0 [(newSession 0 None, 0), (newSession 0 None, 1)] ! 1)"
  by (simp add: withSession_def ID_def fmt_08x_def fmt_d.simps fmt_x.simps replicate_7)

end
